theory Spec2Isabelle
  imports Complex_Main "HOL-Library.AList"
begin

section \<open>JavaScript values used by the front end\<close>

text \<open>
  The export page, the two contexts and the export client are JavaScript. Their data is
  modelled as follows.
  \<^item> A JavaScript string is a \<^typ>\<open>string\<close>: the model has the strings whose code units
    are below 256, and one \<^typ>\<open>char\<close> stands for the code unit of its number, so that
    \<open>CHR 0xA0\<close> is the no-break space and \<open>CHR 0xC9\<close> the capital E with acute accent.
  \<^item> A JavaScript number is an exact rational or \<open>NaN\<close>. The model leaves out what a
    rational does not express: the rounding of doubles, the infinities and negative zero.
  \<^item> A value read from JSON is a \<open>json\<close>; an object is the list of its own properties in
    insertion order (property names that are canonical array indices, which JavaScript
    enumerates first, are outside the model). \<open>undefined\<close> is \<open>None\<close> of a \<open>cell\<close>.
\<close>

subsection \<open>Strings\<close>

text \<open>
  White space, as \<open>trim\<close>, the class \<open>\s\<close> of a regular expression and the numeric
  conversions understand it: below 256 these are the characters 9 to 13, the space and
  the no-break space.
\<close>

definition is_space :: "char \<Rightarrow> bool" where
  "is_space c = (c \<in> set [CHR '' '', CHR 0x09, CHR 0x0A, CHR 0x0B, CHR 0x0C, CHR 0x0D, CHR 0xA0])"

text \<open>\<open>String.prototype.trim\<close>.\<close>

definition trim :: "string \<Rightarrow> string" where
  "trim s = rev (dropWhile is_space (rev (dropWhile is_space s)))"

text \<open>\<open>s.split(sep)\<close> for a one-character separator.\<close>

fun split_on :: "char \<Rightarrow> string \<Rightarrow> string list" where
  "split_on sep [] = [[]]"
| "split_on sep (c # cs) =
     (if c = sep then [] # split_on sep cs
      else (case split_on sep cs of w # ws \<Rightarrow> (c # w) # ws | [] \<Rightarrow> [[c]]))"

text \<open>
  \<open>String.prototype.toLowerCase\<close>: below 256 the capital letters are \<open>A\<close> to \<open>Z\<close> and
  the characters 192 to 222 without the multiplication sign 215.
\<close>

definition upper_letters :: string where
  "upper_letters =
     ''ABCDEFGHIJKLMNOPQRSTUVWXYZ''
     @ [CHR 0xC0, CHR 0xC1, CHR 0xC2, CHR 0xC3, CHR 0xC4, CHR 0xC5, CHR 0xC6, CHR 0xC7,
        CHR 0xC8, CHR 0xC9, CHR 0xCA, CHR 0xCB, CHR 0xCC, CHR 0xCD, CHR 0xCE, CHR 0xCF,
        CHR 0xD0, CHR 0xD1, CHR 0xD2, CHR 0xD3, CHR 0xD4, CHR 0xD5, CHR 0xD6,
        CHR 0xD8, CHR 0xD9, CHR 0xDA, CHR 0xDB, CHR 0xDC, CHR 0xDD, CHR 0xDE]"

definition lower_letters :: string where
  "lower_letters =
     ''abcdefghijklmnopqrstuvwxyz''
     @ [CHR 0xE0, CHR 0xE1, CHR 0xE2, CHR 0xE3, CHR 0xE4, CHR 0xE5, CHR 0xE6, CHR 0xE7,
        CHR 0xE8, CHR 0xE9, CHR 0xEA, CHR 0xEB, CHR 0xEC, CHR 0xED, CHR 0xEE, CHR 0xEF,
        CHR 0xF0, CHR 0xF1, CHR 0xF2, CHR 0xF3, CHR 0xF4, CHR 0xF5, CHR 0xF6,
        CHR 0xF8, CHR 0xF9, CHR 0xFA, CHR 0xFB, CHR 0xFC, CHR 0xFD, CHR 0xFE]"

definition lower_char :: "char \<Rightarrow> char" where
  "lower_char c = (case map_of (zip upper_letters lower_letters) c of Some d \<Rightarrow> d | None \<Rightarrow> c)"

definition toLowerCase :: "string \<Rightarrow> string" where
  "toLowerCase s = map lower_char s"

fun starts_with :: "string \<Rightarrow> string \<Rightarrow> bool" where
  "starts_with s [] = True"
| "starts_with [] (p # ps) = False"
| "starts_with (c # cs) (p # ps) = (c = p \<and> starts_with cs ps)"

text \<open>\<open>s.includes(p)\<close>.\<close>

fun str_includes :: "string \<Rightarrow> string \<Rightarrow> bool" where
  "str_includes [] p = (p = [])"
| "str_includes (c # cs) p = (starts_with (c # cs) p \<or> str_includes cs p)"

text \<open>\<open>xs.join(sep)\<close> on strings.\<close>

fun join :: "string \<Rightarrow> string list \<Rightarrow> string" where
  "join sep [] = []"
| "join sep [x] = x"
| "join sep (x # y # ys) = x @ sep @ join sep (y # ys)"

subsection \<open>Numbers\<close>

datatype jsnum = Fin rat | NaN

fun js_add :: "jsnum \<Rightarrow> jsnum \<Rightarrow> jsnum" where
  "js_add (Fin a) (Fin b) = Fin (a + b)"
| "js_add _ _ = NaN"

fun js_mul :: "jsnum \<Rightarrow> jsnum \<Rightarrow> jsnum" where
  "js_mul (Fin a) (Fin b) = Fin (a * b)"
| "js_mul _ _ = NaN"

definition digit_char :: "nat \<Rightarrow> char" where
  "digit_char d = ''0123456789'' ! d"

fun digits_of :: "nat \<Rightarrow> string" where
  "digits_of n =
     (if n < 10 then [digit_char n] else digits_of (n div 10) @ [digit_char (n mod 10)])"

declare digits_of.simps [simp del]

definition is_digit :: "char \<Rightarrow> bool" where
  "is_digit c = (c \<in> set ''0123456789'')"

definition digit_val :: "char \<Rightarrow> nat" where
  "digit_val c =
     (case map_of (zip ''0123456789'' [0, 1, 2, 3, 4, 5, 6, 7, 8, 9]) c of
        Some d \<Rightarrow> d
      | None \<Rightarrow> 0)"

definition digits_val :: "string \<Rightarrow> nat" where
  "digits_val s = foldl (\<lambda>a c. a * 10 + digit_val c) 0 s"

text \<open>
  The digits after the decimal point of \<open>r\<close> (\<open>0 \<le> r < 1\<close>), at most \<open>n\<close> of them: a
  double prints with at most 17 significant digits.
\<close>

fun frac_digits :: "nat \<Rightarrow> rat \<Rightarrow> string" where
  "frac_digits 0 r = []"
| "frac_digits (Suc n) r =
     (if r = 0 then []
      else digit_char (nat \<lfloor>r * 10\<rfloor>) # frac_digits n (r * 10 - of_int \<lfloor>r * 10\<rfloor>))"

text \<open>
  \<open>Number.prototype.toString\<close> in decimal notation (the exponent notation of numbers
  from \<open>1e21\<close> on and below \<open>1e-6\<close> is not modelled).
\<close>

definition num_to_string :: "jsnum \<Rightarrow> string" where
  "num_to_string n =
     (case n of
        NaN \<Rightarrow> ''NaN''
      | Fin q \<Rightarrow>
          (let a = \<bar>q\<bar>; ip = \<lfloor>a\<rfloor>; fr = a - of_int ip
           in (if q < 0 then ''-'' else []) @ digits_of (nat ip)
              @ (if fr = 0 then [] else ''.'' @ frac_digits 17 fr)))"

text \<open>
  The longest prefix of \<open>s\<close> that is an unsigned decimal literal (\<open>12\<close>, \<open>12.\<close>,
  \<open>12.5\<close>, \<open>.5\<close>, each with an optional exponent), with its value and the rest of \<open>s\<close>.
\<close>

definition parse_exponent :: "string \<Rightarrow> (bool \<times> nat \<times> string) option" where
  "parse_exponent s =
     (case s of
        [] \<Rightarrow> None
      | c # cs \<Rightarrow>
          if c = CHR ''e'' \<or> c = CHR ''E'' then
            (let neg = (case cs of d # _ \<Rightarrow> d = CHR ''-'' | [] \<Rightarrow> False);
                 ds = (case cs of d # ds' \<Rightarrow> if d = CHR ''-'' \<or> d = CHR ''+'' then ds' else cs
                       | [] \<Rightarrow> cs)
             in if takeWhile is_digit ds = [] then None
                else Some (neg, digits_val (takeWhile is_digit ds), dropWhile is_digit ds))
          else None)"

definition parse_decimal :: "string \<Rightarrow> (rat \<times> string) option" where
  "parse_decimal s =
     (let ip = takeWhile is_digit s;
          r1 = dropWhile is_digit s;
          dot = (case r1 of c # _ \<Rightarrow> c = CHR ''.'' | [] \<Rightarrow> False);
          fp = (if dot then takeWhile is_digit (tl r1) else []);
          r2 = (if dot then dropWhile is_digit (tl r1) else r1)
      in if ip = [] \<and> fp = [] then None
         else
           (let m = of_nat (digits_val (ip @ fp)) / 10 ^ length fp
            in case parse_exponent r2 of
                 None \<Rightarrow> Some (m, r2)
               | Some (neg, e, r3) \<Rightarrow> Some (if neg then m / 10 ^ e else m * 10 ^ e, r3)))"

definition parse_signed :: "string \<Rightarrow> (rat \<times> string) option" where
  "parse_signed s =
     (case s of
        [] \<Rightarrow> None
      | c # cs \<Rightarrow>
          if c = CHR ''-'' then map_option (\<lambda>(q, r). (- q, r)) (parse_decimal cs)
          else if c = CHR ''+'' then parse_decimal cs
          else parse_decimal s)"

text \<open>
  \<open>parseFloat\<close> and \<open>Number\<close> on a string. \<open>parseFloat\<close> reads the longest numeric
  prefix after leading white space; \<open>Number\<close> wants the whole trimmed string to be a
  literal and reads the empty string as 0. The literals \<open>Infinity\<close>, \<open>0x..\<close>, \<open>0o..\<close>
  and \<open>0b..\<close> are not modelled.
\<close>

definition parseFloat_str :: "string \<Rightarrow> jsnum" where
  "parseFloat_str s =
     (case parse_signed (dropWhile is_space s) of None \<Rightarrow> NaN | Some (q, _) \<Rightarrow> Fin q)"

definition Number_str :: "string \<Rightarrow> jsnum" where
  "Number_str s =
     (if trim s = [] then Fin 0
      else (case parse_signed (trim s) of
              Some (q, r) \<Rightarrow> if r = [] then Fin q else NaN
            | None \<Rightarrow> NaN))"

subsection \<open>JSON values\<close>

datatype json =
    JNull
  | JBool bool
  | JNum jsnum
  | JStr string
  | JArr "json list"
  | JObj "(string \<times> json) list"

type_synonym cell = "json option"

text \<open>Truthiness: what \<open>if (v)\<close>, \<open>!v\<close> and \<open>v || w\<close> test.\<close>

fun truthy :: "json \<Rightarrow> bool" where
  "truthy JNull = False"
| "truthy (JBool b) = b"
| "truthy (JNum (Fin q)) = (q \<noteq> 0)"
| "truthy (JNum NaN) = False"
| "truthy (JStr s) = (s \<noteq> [])"
| "truthy (JArr xs) = True"
| "truthy (JObj kvs) = True"

definition truthy_cell :: "cell \<Rightarrow> bool" where
  "truthy_cell c = (case c of None \<Rightarrow> False | Some v \<Rightarrow> truthy v)"

text \<open>\<open>String(v)\<close>; inside \<open>Array.prototype.join\<close> a \<open>null\<close> element is the empty string.\<close>

fun to_string :: "json \<Rightarrow> string" where
  "to_string JNull = ''null''"
| "to_string (JBool b) = (if b then ''true'' else ''false'')"
| "to_string (JNum n) = num_to_string n"
| "to_string (JStr s) = s"
| "to_string (JArr xs) = join '','' (map (\<lambda>x. if x = JNull then [] else to_string x) xs)"
| "to_string (JObj kvs) = ''[object Object]''"

definition cell_to_string :: "cell \<Rightarrow> string" where
  "cell_to_string c = (case c of None \<Rightarrow> ''undefined'' | Some v \<Rightarrow> to_string v)"

text \<open>
  \<open>Number(v)\<close> and \<open>parseFloat(v)\<close> on a value: \<open>parseFloat\<close> reads the string form
  of its argument, and a number prints and reads back as itself.
\<close>

fun to_number :: "json \<Rightarrow> jsnum" where
  "to_number JNull = Fin 0"
| "to_number (JBool b) = (if b then Fin 1 else Fin 0)"
| "to_number (JNum n) = n"
| "to_number (JStr s) = Number_str s"
| "to_number (JArr xs) = Number_str (to_string (JArr xs))"
| "to_number (JObj kvs) = NaN"

fun parseFloat :: "json \<Rightarrow> jsnum" where
  "parseFloat (JNum n) = n"
| "parseFloat (JStr s) = parseFloat_str s"
| "parseFloat (JArr xs) = parseFloat_str (to_string (JArr xs))"
| "parseFloat v = NaN"

subsection \<open>Property access\<close>

text \<open>
  \<open>Object.entries(v)\<close> and \<open>Object.keys(v)\<close> for a value that is not \<open>null\<close>: the own
  properties of an object, the indexed elements of an array or of a string, nothing for a
  number or a boolean. On \<open>null\<close> both throw; the callers below test for it.
\<close>

fun object_entries :: "json \<Rightarrow> (string \<times> json) list" where
  "object_entries (JObj kvs) = kvs"
| "object_entries (JArr xs) = map (\<lambda>(i, x). (digits_of i, x)) (enumerate 0 xs)"
| "object_entries (JStr s) = map (\<lambda>(i, c). (digits_of i, JStr [c])) (enumerate 0 s)"
| "object_entries v = []"

definition object_keys :: "json \<Rightarrow> string list" where
  "object_keys v = map fst (object_entries v)"

text \<open>
  \<open>v[k]\<close> for a value that is not \<open>null\<close>: an own property, or \<open>undefined\<close>. (Properties
  inherited from a prototype, such as \<open>toString\<close>, are not modelled.)
\<close>

definition get_prop :: "json \<Rightarrow> string \<Rightarrow> cell" where
  "get_prop v k =
     (case v of
        JArr xs \<Rightarrow> if k = ''length'' then Some (JNum (Fin (of_nat (length xs))))
                   else map_of (object_entries v) k
      | JStr s \<Rightarrow> if k = ''length'' then Some (JNum (Fin (of_nat (length s))))
                  else map_of (object_entries v) k
      | _ \<Rightarrow> map_of (object_entries v) k)"

text \<open>\<open>typeof v === "object"\<close> and \<open>Array.isArray(v)\<close>.\<close>

definition typeof_object :: "json \<Rightarrow> bool" where
  "typeof_object v = (case v of JNull \<Rightarrow> True | JArr _ \<Rightarrow> True | JObj _ \<Rightarrow> True | _ \<Rightarrow> False)"

definition is_array :: "cell \<Rightarrow> bool" where
  "is_array c = (case c of Some (JArr _) \<Rightarrow> True | _ \<Rightarrow> False)"

subsection \<open>Errors\<close>

text \<open>
  A thrown value: its \<open>message\<close> and, when the HTTP client rejected a request because of
  the reply's status, \<open>response.status\<close> and \<open>response.data.detail\<close>.
\<close>

record js_error =
  message :: string
  response_status :: "nat option"
  response_detail :: cell

text \<open>A \<open>TypeError\<close> of the engine (its message is the engine's; the model fixes one).\<close>

definition type_error :: js_error where
  "type_error = \<lparr>message = ''TypeError'', response_status = None, response_detail = None\<rparr>"

definition new_Error :: "string \<Rightarrow> js_error" where
  "new_Error m = \<lparr>message = m, response_status = None, response_detail = None\<rparr>"

subsection \<open>\<open>JSON.stringify\<close>\<close>

definition hex_digit :: "nat \<Rightarrow> char" where
  "hex_digit d = ''0123456789abcdef'' ! d"

definition quote_char :: "char \<Rightarrow> string" where
  "quote_char c =
     (if c = CHR 0x22 then [CHR 0x5C, CHR 0x22]
      else if c = CHR 0x5C then [CHR 0x5C, CHR 0x5C]
      else if c = CHR 0x08 then [CHR 0x5C, CHR ''b'']
      else if c = CHR 0x09 then [CHR 0x5C, CHR ''t'']
      else if c = CHR 0x0A then [CHR 0x5C, CHR ''n'']
      else if c = CHR 0x0C then [CHR 0x5C, CHR ''f'']
      else if c = CHR 0x0D then [CHR 0x5C, CHR ''r'']
      else if (of_char c :: nat) < 32
        then [CHR 0x5C, CHR ''u'', CHR ''0'', CHR ''0'',
              hex_digit ((of_char c :: nat) div 16), hex_digit ((of_char c :: nat) mod 16)]
      else [c])"

definition quote :: "string \<Rightarrow> string" where
  "quote s = [CHR 0x22] @ concat (map quote_char s) @ [CHR 0x22]"

text \<open>
  \<open>JSON.stringify(v, null, gap)\<close> at the indentation \<open>ind\<close>: with an empty \<open>gap\<close> the
  compact form, otherwise one member per line. A number that is not finite prints as
  \<open>null\<close>.
\<close>

function serialize :: "string \<Rightarrow> string \<Rightarrow> json \<Rightarrow> string" where
  "serialize gap ind JNull = ''null''"
| "serialize gap ind (JBool b) = (if b then ''true'' else ''false'')"
| "serialize gap ind (JNum n) = (if n = NaN then ''null'' else num_to_string n)"
| "serialize gap ind (JStr s) = quote s"
| "serialize gap ind (JArr xs) =
     (if xs = [] then ''[]''
      else if gap = [] then ''['' @ join '','' (map (serialize gap (ind @ gap)) xs) @ '']''
      else ''['' @ [CHR 0x0A] @ (ind @ gap)
           @ join ('','' @ [CHR 0x0A] @ (ind @ gap)) (map (serialize gap (ind @ gap)) xs)
           @ [CHR 0x0A] @ ind @ '']'')"
| "serialize gap ind (JObj kvs) =
     (if kvs = [] then ''{}''
      else if gap = []
        then ''{'' @ join '','' (map (\<lambda>kv. quote (fst kv) @ '':'' @ serialize gap (ind @ gap) (snd kv)) kvs)
             @ ''}''
      else ''{'' @ [CHR 0x0A] @ (ind @ gap)
           @ join ('','' @ [CHR 0x0A] @ (ind @ gap))
               (map (\<lambda>kv. quote (fst kv) @ '': '' @ serialize gap (ind @ gap) (snd kv)) kvs)
           @ [CHR 0x0A] @ ind @ ''}'')"
  by pat_completeness auto

termination serialize
proof -
  have elem: "size x < size (JArr xs)" if "x \<in> set xs" for x xs
    using that by (induction xs) auto
  have member: "size (snd kv) < size (JObj kvs)" if "kv \<in> set kvs" for kv kvs
    using that by (induction kvs) auto
  show ?thesis
  proof (relation "measure (\<lambda>(gap, ind, v). size v)", goal_cases)
    case 1
    show ?case by simp
  next
    case (2 gap ind xs x)
    then show ?case using elem [of x xs] by simp
  next
    case (3 gap ind xs x)
    then show ?case using elem [of x xs] by simp
  next
    case (4 gap ind kvs kv)
    then show ?case using member [of kv kvs] by simp
  next
    case (5 gap ind kvs kv)
    then show ?case using member [of kv kvs] by simp
  qed
qed

text \<open>\<open>JSON.stringify(v, null, 2)\<close> and \<open>JSON.stringify(v)\<close>.\<close>

definition stringify2 :: "json \<Rightarrow> string" where
  "stringify2 v = serialize ''  '' [] v"

definition stringify :: "json \<Rightarrow> string" where
  "stringify v = serialize [] [] v"

section \<open>The export page: the table editor of the Excel tab\<close>

subsection \<open>\<open>formatCurrency\<close>\<close>

text \<open>
  \<open>n.toLocaleString("en-US", {style: "currency", currency: "USD", minimumFractionDigits: 2})\<close>
  for a finite \<open>n\<close>: two fraction digits, halves rounded away from zero, the integer
  digits grouped in threes.
\<close>

fun group3_rev :: "string \<Rightarrow> string" where
  "group3_rev (a # b # c # d # ds) = a # b # c # CHR '','' # group3_rev (d # ds)"
| "group3_rev ds = ds"

definition group3 :: "string \<Rightarrow> string" where
  "group3 s = rev (group3_rev (rev s))"

definition round_cents :: "rat \<Rightarrow> nat" where
  "round_cents q = nat \<lfloor>\<bar>q\<bar> * 100 + 1 / 2\<rfloor>"

definition toLocaleString_usd :: "rat \<Rightarrow> string" where
  "toLocaleString_usd q =
     (if q < 0 then ''-'' else []) @ ''$'' @ group3 (digits_of (round_cents q div 100))
       @ ''.'' @ [digit_char (round_cents q mod 100 div 10), digit_char (round_cents q mod 10)]"

definition formatCurrency :: "cell \<Rightarrow> cell" where
  "formatCurrency v =
     (case v of
        None \<Rightarrow> Some (JStr [])
      | Some x \<Rightarrow>
          if x = JNull \<or> x = JStr [] then Some (JStr [])
          else (case to_number x of
                  NaN \<Rightarrow> v
                | Fin q \<Rightarrow> Some (JStr (toLocaleString_usd q))))"

subsection \<open>The Excel preview effect\<close>

record preview =
  headers :: "string list"
  rows :: "cell list list"

text \<open>\<open>c || d\<close> with a default \<open>d\<close> that is a value.\<close>

definition or_default :: "cell \<Rightarrow> json \<Rightarrow> json" where
  "or_default c d = (case c of None \<Rightarrow> d | Some v \<Rightarrow> if truthy v then v else d)"

text \<open>\<open>n || 0\<close> on a number.\<close>

definition or_zero :: "jsnum \<Rightarrow> jsnum" where
  "or_zero n = (case n of NaN \<Rightarrow> Fin 0 | Fin q \<Rightarrow> Fin q)"

text \<open>
  \<open>Object.keys(parsedDraft).filter((k) => Array.isArray(parsedDraft[k]) || k === "overview")\<close>
\<close>

definition section_keys :: "json \<Rightarrow> string list" where
  "section_keys d = filter (\<lambda>k. is_array (get_prop d k) \<or> k = ''overview'') (object_keys d)"

text \<open>\<open>headers.filter((h) => h.split(" ").length === 2)\<close>\<close>

definition month_cols :: "string list \<Rightarrow> string list" where
  "month_cols hs = filter (\<lambda>h. length (split_on CHR '' '' h) = 2) hs"

text \<open>\<open>parseFloat(r[m] || 0) || 0\<close>\<close>

definition month_effort :: "json \<Rightarrow> string \<Rightarrow> jsnum" where
  "month_effort r m = or_zero (parseFloat (or_default (get_prop r m) (JNum (Fin 0))))"

text \<open>\<open>monthCols.reduce((acc, m) => acc + (parseFloat(r[m] || 0) || 0), 0)\<close>\<close>

definition sum_months :: "string list \<Rightarrow> json \<Rightarrow> jsnum" where
  "sum_months hs r = foldl (\<lambda>acc m. js_add acc (month_effort r m)) (Fin 0) (month_cols hs)"

text \<open>\<open>parseFloat(r["Rate/month"] || 0)\<close>\<close>

definition row_rate :: "json \<Rightarrow> jsnum" where
  "row_rate r = parseFloat (or_default (get_prop r ''Rate/month'') (JNum (Fin 0)))"

text \<open>The loop \<open>arr.forEach\<close> over the rows: the pair \<open>(totalEfforts, totalCost)\<close>.\<close>

definition totals :: "string list \<Rightarrow> json list \<Rightarrow> jsnum \<times> jsnum" where
  "totals hs arr =
     foldl (\<lambda>(totalEfforts, totalCost) r.
              (js_add totalEfforts (sum_months hs r),
               js_add totalCost (js_mul (sum_months hs r) (row_rate r))))
       (Fin 0, Fin 0) arr"

text \<open>
  \<open>Number(x.toFixed(2))\<close>: two fraction digits, halves rounded away from zero; from
  \<open>1e21\<close> on \<open>toFixed\<close> prints the number itself.
\<close>

definition toFixed2 :: "jsnum \<Rightarrow> jsnum" where
  "toFixed2 n =
     (case n of
        NaN \<Rightarrow> NaN
      | Fin q \<Rightarrow>
          if \<bar>q\<bar> \<ge> 10 ^ 21 then Fin q
          else Fin ((if q < 0 then - 1 else 1) * of_nat (round_cents q) / 100))"

text \<open>
  The Total row. \<open>headers.length - 2\<close> and \<open>headers.length - 1\<close> are integers, negative
  for fewer than two headers, and the first test that matches wins.
\<close>

definition total_row :: "string list \<Rightarrow> jsnum \<Rightarrow> jsnum \<Rightarrow> cell list" where
  "total_row hs totalEfforts totalCost =
     map (\<lambda>(idx, h).
            if int idx = int (length hs) - 2 then Some (JNum (toFixed2 totalEfforts))
            else if int idx = int (length hs) - 1 then formatCurrency (Some (JNum totalCost))
            else if idx = 0 then Some (JStr ''Total'')
            else Some (JStr []))
       (enumerate 0 hs)"

definition is_money_col :: "string \<Rightarrow> bool" where
  "is_money_col h =
     (str_includes (toLowerCase h) ''rate'' \<or> str_includes (toLowerCase h) ''cost'')"

definition display_row :: "string list \<Rightarrow> json \<Rightarrow> cell list" where
  "display_row hs r =
     map (\<lambda>h. if is_money_col h then formatCurrency (get_prop r h) else get_prop r h) hs"

text \<open>
  The branch for an array section. Reading a property of a \<open>null\<close> row throws: the first
  row in \<open>Object.keys(arr[0])\<close>, any row of the resourcing plan (\<open>r["Rate/month"]\<close>), and
  any row once there is a header to read.
\<close>

definition array_preview :: "string \<Rightarrow> json list \<Rightarrow> js_error + preview" where
  "array_preview excelSection arr =
     (case arr of
        [] \<Rightarrow> Inr \<lparr>headers = [], rows = []\<rparr>
      | a0 # _ \<Rightarrow>
          if \<not> typeof_object a0 then Inr \<lparr>headers = [], rows = []\<rparr>
          else if a0 = JNull then Inl type_error
          else if JNull \<in> set arr \<and> (excelSection = ''resourcing_plan'' \<or> object_keys a0 \<noteq> [])
            then Inl type_error
          else if excelSection = ''resourcing_plan''
            then Inr \<lparr>headers = object_keys a0,
                      rows = map (display_row (object_keys a0)) arr
                        @ [total_row (object_keys a0) (fst (totals (object_keys a0) arr))
                             (snd (totals (object_keys a0) arr))]\<rparr>
          else Inr \<lparr>headers = object_keys a0, rows = map (display_row (object_keys a0)) arr\<rparr>)"

text \<open>
  The effect: from the parsed draft, the active tab and the current section and preview
  to the new section and preview; \<open>Inl\<close> when the effect throws.
\<close>

definition excel_preview_effect ::
  "cell \<Rightarrow> string \<Rightarrow> string \<Rightarrow> preview \<Rightarrow> js_error + (string \<times> preview)" where
  "excel_preview_effect parsedDraft activeTab excelSection excelPreview =
     (case parsedDraft of
        None \<Rightarrow> Inr (excelSection, excelPreview)
      | Some d \<Rightarrow>
          if \<not> (truthy d \<and> activeTab = ''excel'') then Inr (excelSection, excelPreview)
          else if excelSection = [] then
            Inr (if section_keys d \<noteq> [] then hd (section_keys d) else excelSection, excelPreview)
          else if excelSection = ''overview'' then
            Inr (excelSection,
                 \<lparr>headers = [''Field'', ''Value''],
                  rows = map (\<lambda>(k, v). [Some (JStr k), Some v])
                           (object_entries (or_default (get_prop d ''overview'') (JObj [])))\<rparr>)
          else (case get_prop d excelSection of
                  Some (JArr arr) \<Rightarrow>
                    (case array_preview excelSection arr of
                       Inl e \<Rightarrow> Inl e
                     | Inr p \<Rightarrow> Inr (excelSection, p))
                | _ \<Rightarrow> Inr (excelSection, excelPreview)))"

subsection \<open>Writing the table back: \<open>updateParsedDraft\<close>\<close>

text \<open>\<open>row[i]\<close>: \<open>undefined\<close> past the end.\<close>

definition nth_cell :: "cell list \<Rightarrow> nat \<Rightarrow> cell" where
  "nth_cell row i = (if i < length row then row ! i else None)"

text \<open>
  The objects built here are only serialized, and \<open>JSON.stringify\<close> leaves out a property
  whose value is \<open>undefined\<close>: \<open>defined_props\<close> keeps the properties that are printed.
\<close>

definition defined_props :: "(string \<times> cell) list \<Rightarrow> (string \<times> json) list" where
  "defined_props kcs = List.map_filter (\<lambda>(k, c). map_option (Pair k) c) kcs"

text \<open>\<open>headers.reduce((obj, h, idx) => { obj[h] = row[idx]; return obj; }, {})\<close>\<close>

definition row_object :: "string list \<Rightarrow> cell list \<Rightarrow> (string \<times> json) list" where
  "row_object hs row =
     defined_props
       (foldl (\<lambda>obj (idx, h). AList.update h (nth_cell row idx) obj) [] (enumerate 0 hs))"

text \<open>\<open>newRows.forEach(([k, v]) => { if (k) newOverview[k] = v; })\<close>\<close>

definition overview_of_rows :: "cell list list \<Rightarrow> (string \<times> json) list" where
  "overview_of_rows newRows =
     defined_props
       (foldl (\<lambda>newOverview row.
                 if truthy_cell (nth_cell row 0)
                 then AList.update (cell_to_string (nth_cell row 0)) (nth_cell row 1) newOverview
                 else newOverview)
          [] newRows)"

text \<open>
  The object \<open>newDraft\<close> that \<open>updateParsedDraft\<close> serializes; \<open>None\<close> when it returns
  at once. \<open>{...parsedDraft, [section]: x}\<close> keeps the place of an existing property.
\<close>

definition new_draft :: "cell \<Rightarrow> string list \<Rightarrow> string \<Rightarrow> cell list list \<Rightarrow> json option" where
  "new_draft parsedDraft hs section newRows =
     (case parsedDraft of
        None \<Rightarrow> None
      | Some d \<Rightarrow>
          if \<not> truthy d then None
          else if section = ''overview'' then
            Some (JObj (AList.update ''overview'' (JObj (overview_of_rows newRows))
                          (object_entries d)))
          else
            Some (JObj (AList.update section (JArr (map (\<lambda>row. JObj (row_object hs row)) newRows))
                          (object_entries d))))"

text \<open>The new text of the editor: \<open>setJsonText(JSON.stringify(newDraft, null, 2))\<close>.\<close>

definition updateParsedDraft ::
  "cell \<Rightarrow> string list \<Rightarrow> string \<Rightarrow> cell list list \<Rightarrow> string \<Rightarrow> string" where
  "updateParsedDraft parsedDraft hs section newRows jsonText =
     (case new_draft parsedDraft hs section newRows of
        None \<Rightarrow> jsonText
      | Some d \<Rightarrow> stringify2 d)"

subsection \<open>The handlers of the table\<close>

text \<open>
  A row whose first cell is \<open>"Total"\<close> is rendered as text, without inputs and without a
  Delete button; every other cell is an input.
\<close>

definition is_total :: "cell list \<Rightarrow> bool" where
  "is_total row = (nth_cell row 0 = Some (JStr ''Total''))"

definition editable :: "cell list list \<Rightarrow> nat \<Rightarrow> nat \<Rightarrow> bool" where
  "editable rs i j = (i < length rs \<and> j < length (rs ! i) \<and> \<not> is_total (rs ! i))"

text \<open>
  The \<open>onChange\<close> of the input at row \<open>i\<close>, column \<open>j\<close>:
  \<open>newRows[i][j] = e.target.value; updateParsedDraft(excelSection, newRows)\<close>.
  The result is the new rows and the new text.
\<close>

definition on_cell_change ::
  "cell \<Rightarrow> preview \<Rightarrow> string \<Rightarrow> nat \<Rightarrow> nat \<Rightarrow> string \<Rightarrow> string \<Rightarrow> cell list list \<times> string" where
  "on_cell_change parsedDraft excelPreview excelSection i j v jsonText =
     (if editable (rows excelPreview) i j then
        (let newRows = (rows excelPreview)[i := (rows excelPreview ! i)[j := Some (JStr v)]]
         in (newRows, updateParsedDraft parsedDraft (headers excelPreview) excelSection newRows jsonText))
      else (rows excelPreview, jsonText))"

text \<open>The Delete button of row \<open>i\<close>: \<open>rows.filter((_, idx) => idx !== i)\<close>.\<close>

definition on_delete_row ::
  "cell \<Rightarrow> preview \<Rightarrow> string \<Rightarrow> nat \<Rightarrow> string \<Rightarrow> cell list list \<times> string" where
  "on_delete_row parsedDraft excelPreview excelSection i jsonText =
     (if i < length (rows excelPreview) \<and> \<not> is_total (rows excelPreview ! i) then
        (let newRows = map snd (filter (\<lambda>(idx, row). idx \<noteq> i) (enumerate 0 (rows excelPreview)))
         in (newRows, updateParsedDraft parsedDraft (headers excelPreview) excelSection newRows jsonText))
      else (rows excelPreview, jsonText))"


section \<open>The HTTP client and the export client\<close>

text \<open>
  A request as the HTTP client receives it. \<open>signal\<close> is the abort controller whose signal
  the caller passed in the request's options, if it passed one; controllers are numbered
  in the order of their creation.
\<close>

record request =
  http_method :: string
  url :: string
  response_blob :: bool
  signal :: "nat option"

record blob =
  bytes :: string
  blob_type :: string

definition blob_size :: "blob \<Rightarrow> nat" where
  "blob_size b = length (bytes b)"

text \<open>A reply with a body read as a blob: the \<open>content-type\<close> header and the body.\<close>

record blob_response =
  content_type :: "string option"
  data :: blob

definition canceled_error :: js_error where
  "canceled_error = \<lparr>message = ''canceled'', response_status = None, response_detail = None\<rparr>"

text \<open>
  The HTTP client: a request that carries the signal of an aborted controller is rejected
  as canceled; any other request settles with the outcome of the exchange with the
  backend, \<open>Inl\<close> for a reply whose status is not 2xx or for a network failure.
\<close>

definition send :: "nat set \<Rightarrow> request \<Rightarrow> js_error + 'a \<Rightarrow> js_error + 'a" where
  "send aborted req outcome =
     (case signal req of
        None \<Rightarrow> outcome
      | Some c \<Rightarrow> if c \<in> aborted then Inl canceled_error else outcome)"

text \<open>The options a caller hands to an export function: \<open>{ signal, onDownloadProgress }\<close>.\<close>

record fetch_opts =
  opt_signal :: "nat option"
  opt_progress :: bool

text \<open>\<open>safeFileName\<close>; \<open>name.replace\<close> throws when \<open>name\<close> is not a string.\<close>

function replace_spaces :: "string \<Rightarrow> string" where
  "replace_spaces [] = []"
| "replace_spaces (c # cs) =
     (if is_space c then CHR ''_'' # replace_spaces (dropWhile is_space cs)
      else c # replace_spaces cs)"
  by pat_completeness auto

termination replace_spaces
  by (relation "measure length") (auto simp: length_dropWhile_le less_Suc_eq_le)

definition safeFileName :: "json \<Rightarrow> string \<Rightarrow> js_error + string" where
  "safeFileName name ext =
     (case name of
        JStr s \<Rightarrow> Inr (toLowerCase (replace_spaces s) @ ''.'' @ ext)
      | _ \<Rightarrow> Inl type_error)"

text \<open>
  The message of the error that \<open>fetchExportBlob\<close> throws for a reply declared as JSON:
  \<open>JSON.parse(text).detail || "Export failed"\<close>, and \<open>"Export failed"\<close> when reading or
  parsing the body throws. \<open>parse\<close> is \<open>JSON.parse\<close>, \<open>None\<close> where it throws.
\<close>

definition export_error_message :: "(string \<Rightarrow> json option) \<Rightarrow> string \<Rightarrow> string" where
  "export_error_message parse text =
     (case parse text of
        None \<Rightarrow> ''Export failed''
      | Some v \<Rightarrow>
          if v = JNull then ''Export failed''
          else to_string (or_default (get_prop v ''detail'') (JStr ''Export failed'')))"

definition fetchExportBlob ::
  "(string \<Rightarrow> json option) \<Rightarrow> js_error + blob_response \<Rightarrow> js_error + blob" where
  "fetchExportBlob parse res =
     (case res of
        Inl e \<Rightarrow> Inl e
      | Inr r \<Rightarrow>
          if str_includes (case content_type r of None \<Rightarrow> [] | Some ct \<Rightarrow> ct) ''application/json''
          then Inl (new_Error (export_error_message parse (bytes (data r))))
          else Inr (data r))"

text \<open>
  The finalized exports of \<open>exportApi\<close>. Each takes the project id only: the options of
  the caller are not among its parameters, so the request carries no signal.
\<close>

definition export_request :: "string \<Rightarrow> string \<Rightarrow> bool \<Rightarrow> request" where
  "export_request projectId format as_blob =
     \<lparr>http_method = ''GET'', url = ''/projects/'' @ projectId @ ''/export/'' @ format,
      response_blob = as_blob, signal = None\<rparr>"

definition exportToExcel_request :: "string \<Rightarrow> fetch_opts \<Rightarrow> request" where
  "exportToExcel_request projectId opts = export_request projectId ''excel'' True"

definition exportToPdf_request :: "string \<Rightarrow> fetch_opts \<Rightarrow> request" where
  "exportToPdf_request projectId opts = export_request projectId ''pdf'' True"

definition exportToJson_request :: "string \<Rightarrow> fetch_opts \<Rightarrow> request" where
  "exportToJson_request projectId opts = export_request projectId ''json'' False"

text \<open>
  The export functions, from the set of aborted controllers and the outcome of the
  exchange with the backend to what the caller's \<open>await\<close> receives.
\<close>

definition exportToExcel ::
  "(string \<Rightarrow> json option) \<Rightarrow> nat set \<Rightarrow> string \<Rightarrow> fetch_opts \<Rightarrow> js_error + blob_response
     \<Rightarrow> js_error + blob" where
  "exportToExcel parse aborted projectId opts outcome =
     fetchExportBlob parse (send aborted (exportToExcel_request projectId opts) outcome)"

definition exportToPdf ::
  "(string \<Rightarrow> json option) \<Rightarrow> nat set \<Rightarrow> string \<Rightarrow> fetch_opts \<Rightarrow> js_error + blob_response
     \<Rightarrow> js_error + blob" where
  "exportToPdf parse aborted projectId opts outcome =
     fetchExportBlob parse (send aborted (exportToPdf_request projectId opts) outcome)"

definition exportToJson ::
  "nat set \<Rightarrow> string \<Rightarrow> fetch_opts \<Rightarrow> js_error + json \<Rightarrow> js_error + json" where
  "exportToJson aborted projectId opts outcome =
     send aborted (exportToJson_request projectId opts) outcome"

section \<open>The export context\<close>

record export_ctx =
  ec_loading :: bool
  ec_error :: cell

text \<open>
  \<open>handleExport(fn, ...args)\<close>, from the outcome of \<open>fn\<close>: the loading flag is set and
  cleared again, the error is reset, and a failure is recorded and thrown again. The
  recorded text is \<open>err.message || err.response.data.detail || "Export failed. Please try again."\<close>.
\<close>

definition handleExport :: "export_ctx \<Rightarrow> js_error + 'a \<Rightarrow> export_ctx \<times> (js_error + 'a)" where
  "handleExport ctx outcome =
     (case outcome of
        Inr x \<Rightarrow> (\<lparr>ec_loading = False, ec_error = None\<rparr>, Inr x)
      | Inl err \<Rightarrow>
          (\<lparr>ec_loading = False,
            ec_error =
              (if message err \<noteq> [] then Some (JStr (message err))
               else if truthy_cell (response_detail err) then response_detail err
               else Some (JStr ''Export failed. Please try again.''))\<rparr>,
           Inl err))"

definition no_opts :: fetch_opts where
  "no_opts = \<lparr>opt_signal = None, opt_progress = False\<rparr>"

text \<open>
  \<open>getFinalizedScope\<close> of the export context: the finalized JSON export, and \<open>null\<close>
  (here \<open>None\<close>) when the request was rejected with status 400.
\<close>

definition ExportContext_getFinalizedScope ::
  "export_ctx \<Rightarrow> nat set \<Rightarrow> string \<Rightarrow> js_error + json \<Rightarrow> export_ctx \<times> (js_error + json option)" where
  "ExportContext_getFinalizedScope ctx aborted projectId outcome =
     (case handleExport ctx (exportToJson aborted projectId no_opts outcome) of
        (ctx', Inr d) \<Rightarrow> (ctx', Inr (Some d))
      | (ctx', Inl err) \<Rightarrow>
          if response_status err = Some 400 then (ctx', Inr None) else (ctx', Inl err))"

section \<open>The project context\<close>

record project_ctx =
  projects :: "json list"
  lastPreviewScope :: cell
  lastRedirectUrl :: "string option"

text \<open>
  \<open>a === b\<close> on values read from JSON: primitives compare by value, \<open>NaN\<close> equals
  nothing, and two objects or arrays read from different replies are never the same object.
\<close>

definition strict_eq :: "cell \<Rightarrow> cell \<Rightarrow> bool" where
  "strict_eq a b =
     (case (a, b) of
        (None, None) \<Rightarrow> True
      | (Some (JArr _), _) \<Rightarrow> False
      | (Some (JObj _), _) \<Rightarrow> False
      | (Some (JNum NaN), _) \<Rightarrow> False
      | _ \<Rightarrow> a = b)"

text \<open>\<open>{ ...p, ...next }\<close>\<close>

definition spread2 :: "json \<Rightarrow> json \<Rightarrow> json" where
  "spread2 p next =
     JObj (foldl (\<lambda>obj (k, v). AList.update k v obj) (object_entries p) (object_entries next))"

definition replaceById :: "json list \<Rightarrow> cell \<Rightarrow> json \<Rightarrow> json list" where
  "replaceById list pid next =
     map (\<lambda>p. if strict_eq (get_prop p ''id'') pid then spread2 p next else p) list"

definition removeById :: "json list \<Rightarrow> cell \<Rightarrow> json list" where
  "removeById list pid = filter (\<lambda>p. \<not> strict_eq (get_prop p ''id'') pid) list"

text \<open>
  \<open>Promise.all\<close> of three calls. All three are issued; the result is the three values
  when each call succeeds, and otherwise the error of the failed call that settles first.
  \<open>order\<close> lists the calls (0, 1, 2) in the order in which they settle.
\<close>

definition promise_all3 ::
  "nat list \<Rightarrow> js_error + 'a \<Rightarrow> js_error + 'b \<Rightarrow> js_error + 'c \<Rightarrow> js_error + ('a \<times> 'b \<times> 'c)" where
  "promise_all3 order r0 r1 r2 =
     (case (r0, r1, r2) of
        (Inr a, Inr b, Inr c) \<Rightarrow> Inr (a, b, c)
      | _ \<Rightarrow>
          (case List.map_filter
                  (\<lambda>i. if i = 0 then (case r0 of Inl e \<Rightarrow> Some e | Inr _ \<Rightarrow> None)
                       else if i = 1 then (case r1 of Inl e \<Rightarrow> Some e | Inr _ \<Rightarrow> None)
                       else if i = 2 then (case r2 of Inl e \<Rightarrow> Some e | Inr _ \<Rightarrow> None)
                       else None)
                  (order @ [0, 1, 2]) of
             e # _ \<Rightarrow> Inl e
           | [] \<Rightarrow> Inl type_error))"

text \<open>The three previews of one operation, as \<open>exportApi\<close> returns them.\<close>

record previews =
  jsonPreview :: json
  excelPreview :: blob
  pdfPreview :: blob

text \<open>\<open>`/exports/${projectId}`\<close>\<close>

definition redirect_url :: "cell \<Rightarrow> string" where
  "redirect_url projectId = ''/exports/'' @ cell_to_string projectId"

record create_result =
  cr_projectId :: cell
  cr_scope :: json
  cr_redirectUrl :: string
  cr_previews :: previews

text \<open>
  \<open>createProject\<close>, from the outcomes of its requests (create, generate scope, the three
  previews with the order in which they settle, reload of the project) to the new context
  and the result. A step is only reached when the steps before it succeeded.
  \<open>res.data.id\<close> throws when the reply has no body.
\<close>

definition createProject ::
  "project_ctx \<Rightarrow> js_error + json \<Rightarrow> js_error + json \<Rightarrow> nat list \<Rightarrow> js_error + json
     \<Rightarrow> js_error + blob \<Rightarrow> js_error + blob \<Rightarrow> js_error + json
     \<Rightarrow> project_ctx \<times> (js_error + create_result)" where
  "createProject ctx created generated order pj pe pp reloaded =
     (case created of
        Inl e \<Rightarrow> (ctx, Inl e)
      | Inr res_data \<Rightarrow>
          if res_data = JNull then (ctx, Inl type_error)
          else
            (case generated of
               Inl e \<Rightarrow> (ctx, Inl e)
             | Inr scope \<Rightarrow>
                 (case promise_all3 order pj pe pp of
                    Inl e \<Rightarrow> (ctx, Inl e)
                  | Inr (j, x, p) \<Rightarrow>
                      (case reloaded of
                         Inl e \<Rightarrow> (ctx, Inl e)
                       | Inr fullProject \<Rightarrow>
                           (ctx\<lparr>projects :=
                                  fullProject # removeById (projects ctx) (get_prop res_data ''id''),
                                lastPreviewScope := Some (or_default (Some j) scope),
                                lastRedirectUrl := Some (redirect_url (get_prop res_data ''id''))\<rparr>,
                            Inr \<lparr>cr_projectId = get_prop res_data ''id'', cr_scope = scope,
                                 cr_redirectUrl = redirect_url (get_prop res_data ''id''),
                                 cr_previews = \<lparr>jsonPreview = j, excelPreview = x,
                                                pdfPreview = p\<rparr>\<rparr>)))))"

text \<open>
  \<open>regenerateScope\<close>: the finalized JSON export, or on status 400 the draft (\<open>{}\<close> without
  one), then the three previews, then \<open>setLastPreviewScope(jsonPreview || null)\<close>. The
  scope that the previews are asked for is \<open>scope_to_use\<close>.
\<close>

definition scope_to_use :: "cell \<Rightarrow> js_error + json \<Rightarrow> js_error + cell" where
  "scope_to_use draftScope exported =
     (case exported of
        Inr d \<Rightarrow> Inr (Some d)
      | Inl err \<Rightarrow>
          if response_status err = Some 400 then Inr (Some (or_default draftScope (JObj [])))
          else Inl err)"

definition regenerateScope ::
  "project_ctx \<Rightarrow> cell \<Rightarrow> js_error + json \<Rightarrow> nat list \<Rightarrow> js_error + json
     \<Rightarrow> js_error + blob \<Rightarrow> js_error + blob \<Rightarrow> project_ctx \<times> (js_error + json)" where
  "regenerateScope ctx draftScope exported order pj pe pp =
     (case scope_to_use draftScope exported of
        Inl e \<Rightarrow> (ctx, Inl e)
      | Inr _ \<Rightarrow>
          (case promise_all3 order pj pe pp of
             Inl e \<Rightarrow> (ctx, Inl e)
           | Inr (j, x, p) \<Rightarrow>
               (ctx\<lparr>lastPreviewScope := Some (or_default (Some j) JNull)\<rparr>, Inr j)))"

record finalize_result =
  fr_scope :: json
  fr_previews :: previews

text \<open>
  \<open>finalizeScope(id, scopeData)\<close>: finalize on the backend, reload the project and replace
  it in the list, then the three previews, then the last preview scope and the redirect
  URL. \<open>finalizedScope\<close> is \<open>res.data?.scope || scopeData\<close>.
\<close>

definition finalized_scope :: "json \<Rightarrow> json \<Rightarrow> json" where
  "finalized_scope res_data scopeData =
     (if res_data = JNull then scopeData else or_default (get_prop res_data ''scope'') scopeData)"

definition finalizeScope ::
  "project_ctx \<Rightarrow> string \<Rightarrow> json \<Rightarrow> js_error + json \<Rightarrow> js_error + json \<Rightarrow> nat list
     \<Rightarrow> js_error + json \<Rightarrow> js_error + blob \<Rightarrow> js_error + blob
     \<Rightarrow> project_ctx \<times> (js_error + finalize_result)" where
  "finalizeScope ctx pid scopeData finalized reloaded order pj pe pp =
     (case finalized of
        Inl e \<Rightarrow> (ctx, Inl e)
      | Inr res_data \<Rightarrow>
          (case reloaded of
             Inl e \<Rightarrow> (ctx, Inl e)
           | Inr fullProject \<Rightarrow>
               (case promise_all3 order pj pe pp of
                  Inl e \<Rightarrow>
                    (ctx\<lparr>projects := replaceById (projects ctx) (Some (JStr pid)) fullProject\<rparr>,
                     Inl e)
                | Inr (j, x, p) \<Rightarrow>
                    (ctx\<lparr>projects := replaceById (projects ctx) (Some (JStr pid)) fullProject,
                         lastPreviewScope :=
                           Some (or_default (Some j) (finalized_scope res_data scopeData)),
                         lastRedirectUrl := Some (redirect_url (Some (JStr pid)))\<rparr>,
                     Inr \<lparr>fr_scope = finalized_scope res_data scopeData,
                          fr_previews = \<lparr>jsonPreview = j, excelPreview = x,
                                         pdfPreview = p\<rparr>\<rparr>))))"

text \<open>
  \<open>getFinalizedScope\<close> of the project context, from the outcome of
  \<open>projectApi.getFinalizedScope(id)\<close>: \<open>null\<close> (here \<open>None\<close>) for a reply without data, the
  data otherwise; an error is logged and thrown again.
\<close>

definition ProjectContext_getFinalizedScope :: "js_error + json \<Rightarrow> js_error + json option" where
  "ProjectContext_getFinalizedScope outcome =
     (case outcome of
        Inl err \<Rightarrow> Inl err
      | Inr res_data \<Rightarrow> if \<not> truthy res_data then Inr None else Inr (Some res_data))"

section \<open>The export page: state and effects\<close>

datatype toast_kind = ToastSuccess | ToastError | ToastInfo

datatype dl_key = KJson | KExcel | KPdf | KAll

record dl =
  dl_loading :: bool
  progress :: nat
  controller :: "nat option"

datatype saved_file = SavedBlob blob | SavedZip "(string \<times> string) list"

text \<open>
  The state of the page: its \<open>useState\<close> cells and its refs (\<open>prevJsonRef\<close>,
  \<open>cachedPdfBlobRef\<close>, \<open>lastPdfKeyRef\<close>), and what the page does to its surroundings: the
  toasts it shows, the files it hands to the browser, the abort controllers it has
  created (\<open>next_controller\<close>) and aborted, and the number of PDF previews it has asked
  for. An object URL is modelled by the blob it was created for.
\<close>

record page =
  jsonText :: string
  isFinalized :: bool
  justFinalized :: bool
  prevJsonRef :: string
  finalizing :: bool
  showSuccessBanner :: bool
  loading :: bool
  project :: cell
  activeTab :: string
  previewPdfUrl :: "blob option"
  cachedPdfBlobRef :: "blob option"
  lastPdfKeyRef :: string
  pdf_fetches :: nat
  downloadState :: "dl_key \<Rightarrow> dl"
  next_controller :: nat
  aborted :: "nat set"
  saved :: "(string \<times> saved_file) list"
  toasts :: "(toast_kind \<times> string) list"

definition idle :: dl where
  "idle = \<lparr>dl_loading = False, progress = 0, controller = None\<rparr>"

definition initial_page :: page where
  "initial_page =
     \<lparr>jsonText = [], isFinalized = False, justFinalized = False, prevJsonRef = [],
      finalizing = False, showSuccessBanner = False, loading = False, project = None,
      activeTab = ''json'', previewPdfUrl = None, cachedPdfBlobRef = None, lastPdfKeyRef = [],
      pdf_fetches = 0, downloadState = (\<lambda>k. idle), next_controller = 0, aborted = {},
      saved = [], toasts = []\<rparr>"

definition toast :: "toast_kind \<Rightarrow> string \<Rightarrow> page \<Rightarrow> page" where
  "toast kind msg s = s\<lparr>toasts := toasts s @ [(kind, msg)]\<rparr>"

text \<open>
  The memo \<open>parsedDraft\<close>: \<open>null\<close> (here \<open>None\<close>) for a blank text and for a text that
  \<open>JSON.parse\<close> rejects. \<open>parse\<close> is \<open>JSON.parse\<close>, \<open>None\<close> where it throws.
\<close>

definition parsedDraft :: "(string \<Rightarrow> json option) \<Rightarrow> string \<Rightarrow> cell" where
  "parsedDraft parse text = (if trim text = [] then None else parse text)"

text \<open>
  An effect is a function of the render whose values it closed over (\<open>r\<close>) and of the
  current state (\<open>s\<close>): it reads the state cells in \<open>r\<close> and the refs in \<open>s\<close>, and its
  writes go to \<open>s\<close>.
\<close>


text \<open>The effect on \<open>[jsonText, isFinalized, justFinalized]\<close> that detects an edit.\<close>

definition edit_detection_effect :: "page \<Rightarrow> page \<Rightarrow> page" where
  "edit_detection_effect r s =
     (let s1 = (if isFinalized r \<and> prevJsonRef s \<noteq> [] \<and> prevJsonRef s \<noteq> jsonText r
                   \<and> \<not> justFinalized r
                then s\<lparr>isFinalized := False\<rparr> else s);
          s2 = s1\<lparr>prevJsonRef := jsonText r\<rparr>
      in if justFinalized r then s2\<lparr>justFinalized := False\<rparr> else s2)"




text \<open>
  The effect on \<open>[id, incomingDraft, justFinalized]\<close> that loads the project, from the
  outcomes of \<open>projectApi.getProject(id)\<close> and of the request behind \<open>getFinalizedScope\<close>,
  which the page takes from the project context. A failure of either is caught and
  logged to the console.
\<close>

definition load_project_effect ::
  "page \<Rightarrow> js_error + json \<Rightarrow> js_error + json \<Rightarrow> cell \<Rightarrow> page \<Rightarrow> page" where
  "load_project_effect r loaded finalized incomingDraft s =
     (case loaded of
        Inl e \<Rightarrow> s\<lparr>loading := False\<rparr>
      | Inr res_data \<Rightarrow>
          if isFinalized r \<and> justFinalized r then s\<lparr>project := Some res_data, loading := False\<rparr>
          else
            (case ProjectContext_getFinalizedScope finalized of
               Inl e \<Rightarrow> s\<lparr>project := Some res_data, loading := False\<rparr>
             | Inr (Some finalizedData) \<Rightarrow>
                 s\<lparr>project := Some res_data, jsonText := stringify2 finalizedData,
                   isFinalized := True, loading := False\<rparr>
             | Inr None \<Rightarrow>
                 (case incomingDraft of
                    Some d \<Rightarrow>
                      if truthy d
                      then s\<lparr>project := Some res_data, jsonText := stringify2 d,
                             isFinalized := False, loading := False\<rparr>
                      else s\<lparr>project := Some res_data, jsonText := [], isFinalized := False,
                             loading := False\<rparr>
                  | None \<Rightarrow>
                      s\<lparr>project := Some res_data, jsonText := [], isFinalized := False,
                        loading := False\<rparr>)))"


subsection \<open>\<open>handleFinalize\<close>\<close>

text \<open>
  \<open>handleFinalize\<close> returns at once (here \<open>None\<close>) when there is no draft. Otherwise it
  runs in three pieces, one up to each \<open>await\<close>: \<open>handleFinalize_begin\<close> up to the call
  of \<open>finalizeScope\<close>, \<open>handleFinalize_finalized\<close> from its outcome up to the call of
  \<open>getFinalizedScope\<close>, and \<open>handleFinalize_refetched\<close> from that outcome to the end.
  Between the pieces the page renders and its effects run.
\<close>

definition handleFinalize_begin :: "(string \<Rightarrow> json option) \<Rightarrow> page \<Rightarrow> page option" where
  "handleFinalize_begin parse s =
     (if truthy_cell (parsedDraft parse (jsonText s)) then Some (s\<lparr>finalizing := True\<rparr>) else None)"

definition handleFinalize_finalized :: "js_error + 'a \<Rightarrow> page \<Rightarrow> page" where
  "handleFinalize_finalized finalize_outcome s =
     (case finalize_outcome of
        Inl err \<Rightarrow> (toast ToastError ''Failed to finalize scope.'' s)\<lparr>finalizing := False\<rparr>
      | Inr _ \<Rightarrow>
          (toast ToastSuccess ''Scope finalized successfully!'' s)
            \<lparr>justFinalized := True, isFinalized := True, showSuccessBanner := True\<rparr>)"

definition handleFinalize_refetched :: "js_error + json \<Rightarrow> page \<Rightarrow> page" where
  "handleFinalize_refetched finalized s =
     (case ProjectContext_getFinalizedScope finalized of
        Inl err \<Rightarrow> (toast ToastError ''Failed to finalize scope.'' s)\<lparr>finalizing := False\<rparr>
      | Inr (Some finalizedData) \<Rightarrow>
          s\<lparr>jsonText := stringify2 finalizedData, previewPdfUrl := None, finalizing := False\<rparr>
      | Inr None \<Rightarrow> s\<lparr>previewPdfUrl := None, finalizing := False\<rparr>)"

subsection \<open>Downloads\<close>

definition startDownload :: "dl_key \<Rightarrow> nat \<Rightarrow> page \<Rightarrow> page" where
  "startDownload key c s =
     s\<lparr>downloadState := (downloadState s)
          (key := \<lparr>dl_loading = True, progress = 0, controller = Some c\<rparr>)\<rparr>"

definition finishDownload :: "dl_key \<Rightarrow> page \<Rightarrow> page" where
  "finishDownload key s =
     s\<lparr>downloadState := (downloadState s)
          (key := \<lparr>dl_loading = False, progress = 100, controller = None\<rparr>)\<rparr>"

definition resetDownload :: "dl_key \<Rightarrow> page \<Rightarrow> page" where
  "resetDownload key s =
     s\<lparr>downloadState := (downloadState s)
          (key := \<lparr>dl_loading = False, progress = 0, controller = None\<rparr>)\<rparr>"

text \<open>
  The Cancel button of a download, rendered while the download is loading:
  \<open>downloadState[key].controller?.abort()\<close>.
\<close>

definition cancel_click :: "dl_key \<Rightarrow> page \<Rightarrow> page" where
  "cancel_click key s =
     (case controller (downloadState s key) of
        None \<Rightarrow> s
      | Some c \<Rightarrow> if dl_loading (downloadState s key) then s\<lparr>aborted := insert c (aborted s)\<rparr> else s)"

text \<open>\<open>parsedDraft?.overview?.["Project Name"] || `project_${id}`\<close>\<close>

definition project_name :: "cell \<Rightarrow> string \<Rightarrow> json" where
  "project_name pd pid =
     or_default
       (case pd of
          None \<Rightarrow> None
        | Some d \<Rightarrow>
            if d = JNull then None
            else (case get_prop d ''overview'' of
                    None \<Rightarrow> None
                  | Some ov \<Rightarrow> if ov = JNull then None else get_prop ov ''Project Name''))
       (JStr (''project_'' @ pid))"

text \<open>
  \<open>downloadFile(key, fetchFn, defaultName, ext)\<close> in two pieces: up to the \<open>await\<close> of
  \<open>fetchFn\<close>, which creates the controller \<open>next_controller s\<close>, and from the outcome of
  \<open>fetchFn\<close> to the end, with the \<open>catch\<close> block as \<open>download_failed\<close>.
\<close>

definition downloadFile_start :: "dl_key \<Rightarrow> page \<Rightarrow> page" where
  "downloadFile_start key s =
     (startDownload key (next_controller s) s)\<lparr>next_controller := Suc (next_controller s)\<rparr>"

definition download_failed :: "dl_key \<Rightarrow> nat \<Rightarrow> json \<Rightarrow> page \<Rightarrow> page" where
  "download_failed key c defaultName s =
     resetDownload key
       (if c \<in> aborted s then toast ToastInfo (to_string defaultName @ '' download cancelled'') s
        else toast ToastError (''Failed to download '' @ to_string defaultName) s)"

definition downloadFile_settle ::
  "dl_key \<Rightarrow> nat \<Rightarrow> js_error + blob option \<Rightarrow> json \<Rightarrow> string \<Rightarrow> page \<Rightarrow> page" where
  "downloadFile_settle key c fetched defaultName ext s =
     (case fetched of
        Inl err \<Rightarrow> download_failed key c defaultName s
      | Inr None \<Rightarrow> download_failed key c defaultName s
      | Inr (Some b) \<Rightarrow>
          if blob_size b = 0 then download_failed key c defaultName s
          else (case safeFileName defaultName ext of
                  Inl err \<Rightarrow> download_failed key c defaultName s
                | Inr filename \<Rightarrow>
                    toast ToastSuccess (filename @ '' downloaded'')
                      (finishDownload key (s\<lparr>saved := saved s @ [(filename, SavedBlob b)]\<rparr>))))"

definition download_opts :: "nat \<Rightarrow> fetch_opts" where
  "download_opts c = \<lparr>opt_signal = Some c, opt_progress = True\<rparr>"

text \<open>
  The three single downloads. \<open>cancel\<close> says whether the user clicks Cancel while the
  request is in flight; \<open>outcome\<close> is the outcome of the exchange with the backend.
\<close>

definition handleDownloadJson ::
  "cell \<Rightarrow> string \<Rightarrow> bool \<Rightarrow> js_error + json \<Rightarrow> page \<Rightarrow> page" where
  "handleDownloadJson pd pid cancel outcome s =
     (let c = next_controller s;
          s1 = downloadFile_start KJson s;
          s2 = (if cancel then cancel_click KJson s1 else s1)
      in downloadFile_settle KJson c
           (case exportToJson (aborted s2) pid (download_opts c) outcome of
              Inl err \<Rightarrow> Inl err
            | Inr d \<Rightarrow> Inr (Some \<lparr>bytes = stringify2 d, blob_type = ''application/json''\<rparr>))
           (project_name pd pid) ''json'' s2)"

definition handleDownloadExcel ::
  "(string \<Rightarrow> json option) \<Rightarrow> cell \<Rightarrow> string \<Rightarrow> bool \<Rightarrow> js_error + blob_response \<Rightarrow> page \<Rightarrow> page" where
  "handleDownloadExcel parse pd pid cancel outcome s =
     (let c = next_controller s;
          s1 = downloadFile_start KExcel s;
          s2 = (if cancel then cancel_click KExcel s1 else s1)
      in downloadFile_settle KExcel c
           (case exportToExcel parse (aborted s2) pid (download_opts c) outcome of
              Inl err \<Rightarrow> Inl err
            | Inr b \<Rightarrow> Inr (Some b))
           (project_name pd pid) ''xlsx'' s2)"

definition handleDownloadPdf ::
  "(string \<Rightarrow> json option) \<Rightarrow> cell \<Rightarrow> string \<Rightarrow> bool \<Rightarrow> js_error + blob_response \<Rightarrow> page \<Rightarrow> page" where
  "handleDownloadPdf parse pd pid cancel outcome s =
     (let c = next_controller s;
          s1 = downloadFile_start KPdf s;
          s2 = (if cancel then cancel_click KPdf s1 else s1)
      in downloadFile_settle KPdf c
           (case exportToPdf parse (aborted s2) pid (download_opts c) outcome of
              Inl err \<Rightarrow> Inl err
            | Inr b \<Rightarrow> Inr (Some b))
           (project_name pd pid) ''pdf'' s2)"

text \<open>
  The archive is built by the library JSZip (version 3). Its entries are listed in the
  order in which they were added, each with its name and its content; a folder is an
  entry whose name ends in \<open>/\<close>, without content. \<open>zip.file(name, data)\<close> first adds,
  from the outermost on, an entry for each folder on the path \<open>name\<close> that the archive
  does not have yet (the library's \<open>parentFolder\<close>, \<open>forceTrailingSlash\<close> and
  \<open>folderAdd\<close>), and then sets the entry \<open>name\<close>, replacing an entry of that name.
\<close>

definition parentFolder :: "string \<Rightarrow> string" where
  "parentFolder path =
     (let p = (if path \<noteq> [] \<and> last path = CHR ''/'' then butlast path else path);
          lastSlash = int (length p) - 1 - int (length (takeWhile (\<lambda>c. c \<noteq> CHR ''/'') (rev p)))
      in if 0 < lastSlash then take (nat lastSlash) p else [])"

definition forceTrailingSlash :: "string \<Rightarrow> string" where
  "forceTrailingSlash path = (if path \<noteq> [] \<and> last path = CHR ''/'' then path else path @ ''/'')"

function folderAdd :: "string \<Rightarrow> (string \<times> string) list \<Rightarrow> (string \<times> string) list" where
  "folderAdd name files =
     (if forceTrailingSlash name \<in> fst ` set files then files
      else AList.update (forceTrailingSlash name) []
             (if parentFolder (forceTrailingSlash name) = [] then files
              else folderAdd (parentFolder (forceTrailingSlash name)) files))"
  by pat_completeness auto

termination folderAdd
proof (relation "measure (\<lambda>(name, files). length name)", goal_cases)
  case 1
  show ?case by simp
next
  case (2 name files)
  have "length (parentFolder (forceTrailingSlash name)) < length name"
    if "parentFolder (forceTrailingSlash name) \<noteq> []"
    using that
    by (auto simp: parentFolder_def forceTrailingSlash_def Let_def split: if_splits)
  with 2 show ?case by simp
qed

declare folderAdd.simps [simp del]

definition zip_file :: "string \<Rightarrow> string \<Rightarrow> (string \<times> string) list \<Rightarrow> (string \<times> string) list" where
  "zip_file name content files =
     AList.update name content
       (if parentFolder name = [] then files else folderAdd (parentFolder name) files)"

text \<open>
  \<open>handleDownloadAll\<close>: the three requests one after the other, each entry added to the
  archive when its request has succeeded, the archive saved at the end. The \<open>catch\<close> block
  is \<open>download_all_failed\<close>.
\<close>

definition download_all_failed :: "nat \<Rightarrow> page \<Rightarrow> page" where
  "download_all_failed c s =
     resetDownload KAll
       (if c \<in> aborted s then toast ToastInfo ''Download all cancelled'' s
        else toast ToastError ''Failed to download all files'' s)"

definition handleDownloadAll ::
  "(string \<Rightarrow> json option) \<Rightarrow> cell \<Rightarrow> string \<Rightarrow> bool \<Rightarrow> js_error + json
     \<Rightarrow> js_error + blob_response \<Rightarrow> js_error + blob_response \<Rightarrow> page \<Rightarrow> page" where
  "handleDownloadAll parse pd pid cancel json_outcome excel_outcome pdf_outcome s =
     (let c = next_controller s;
          s1 = downloadFile_start KAll s;
          s2 = (if cancel then cancel_click KAll s1 else s1);
          projectName = project_name pd pid
      in case exportToJson (aborted s2) pid \<lparr>opt_signal = Some c, opt_progress = False\<rparr> json_outcome of
           Inl err \<Rightarrow> download_all_failed c s2
         | Inr jsonData \<Rightarrow>
             (case safeFileName projectName ''json'' of
                Inl err \<Rightarrow> download_all_failed c s2
              | Inr json_name \<Rightarrow>
                  (case exportToExcel parse (aborted s2) pid (download_opts c) excel_outcome of
                     Inl err \<Rightarrow> download_all_failed c s2
                   | Inr excelBlob \<Rightarrow>
                       (case safeFileName projectName ''xlsx'' of
                          Inl err \<Rightarrow> download_all_failed c s2
                        | Inr excel_name \<Rightarrow>
                            (case exportToPdf parse (aborted s2) pid
                                    \<lparr>opt_signal = Some c, opt_progress = False\<rparr> pdf_outcome of
                               Inl err \<Rightarrow> download_all_failed c s2
                             | Inr pdfBlob \<Rightarrow>
                                 (case (safeFileName projectName ''pdf'', safeFileName projectName ''zip'') of
                                    (Inr pdf_name, Inr zip_name) \<Rightarrow>
                                      toast ToastSuccess ''All files downloaded''
                                        (finishDownload KAll
                                           (s2\<lparr>saved := saved s2 @
                                                 [(zip_name,
                                                   SavedZip
                                                     (zip_file pdf_name (bytes pdfBlob)
                                                        (zip_file excel_name (bytes excelBlob)
                                                           (zip_file json_name (stringify2 jsonData) []))))]\<rparr>))
                                  | _ \<Rightarrow> download_all_failed c s2))))))"

section \<open>Notions used in the statements\<close>


text \<open>
  The rows of the overview table: each is a Field cell holding a string and a Value
  cell. The preview effect builds such rows from the entries of the overview, an edit
  writes a string into one of the two cells, Add New appends the row of two empty
  strings, and Delete removes a row.
\<close>

definition field_rows :: "(string \<times> json) list \<Rightarrow> cell list list" where
  "field_rows kvs = map (\<lambda>(k, v). [Some (JStr k), Some v]) kvs"

text \<open>One step of the loop of the overview branch, on properties that are all defined.\<close>

definition set_field :: "(string \<times> json) list \<Rightarrow> string \<times> json \<Rightarrow> (string \<times> json) list" where
  "set_field al kv = (if fst kv = [] then al else AList.update (fst kv) (snd kv) al)"

definition lift_props :: "(string \<times> json) list \<Rightarrow> (string \<times> cell) list" where
  "lift_props al = map (\<lambda>(k, v). (k, Some v)) al"

section \<open>Sample inputs\<close>

text \<open>\<open>JSON.parse\<close> on the two texts \<open>{}\<close> and \<open>{ }\<close>, which differ in white space only.\<close>

definition sample_parse :: "string \<Rightarrow> json option" where
  "sample_parse text = (if text = ''{}'' \<or> text = ''{ }'' then Some (JObj []) else None)"

text \<open>The resourcing-plan row of the example.\<close>

definition sample_row :: "(string \<times> json) list" where
  "sample_row =
     [(''Role'', JStr ''Dev''), (''Rate/month'', JNum (Fin 1000)),
      (''Month 1'', JNum (Fin 2)), (''Month 2'', JNum (Fin 1))]"

text \<open>A draft with this row as its resourcing plan, and the table that the preview shows for it.\<close>

definition sample_draft :: json where
  "sample_draft =
     JObj [(''overview'', JObj [(''Project Name'', JStr ''Demo'')]),
           (''resourcing_plan'', JArr [JObj sample_row])]"

definition sample_preview :: preview where
  "sample_preview =
     \<lparr>headers = [''Role'', ''Rate/month'', ''Month 1'', ''Month 2''],
      rows = [[Some (JStr ''Dev''), Some (JStr ''$1,000.00''), Some (JNum (Fin 2)), Some (JNum (Fin 1))],
              [Some (JStr ''Total''), Some (JStr []), Some (JNum (Fin 3)), Some (JStr ''$3,000.00'')]]\<rparr>"

text \<open>
  The error with which the HTTP client rejects a request answered with status 400, and a
  page that shows a finalized scope.
\<close>

definition status_400 :: js_error where
  "status_400 =
     \<lparr>message = ''Request failed with status code 400'', response_status = Some 400,
      response_detail = None\<rparr>"

definition finalized_page :: page where
  "finalized_page = initial_page\<lparr>jsonText := ''{}'', isFinalized := True, prevJsonRef := ''{}''\<rparr>"

text \<open>Replies of the export endpoints: a spreadsheet, a spreadsheet of zero bytes, a PDF, an HTML page.\<close>

definition xlsx_type :: string where
  "xlsx_type = ''application/vnd.openxmlformats-officedocument.spreadsheetml.sheet''"

definition xlsx_reply :: blob_response where
  "xlsx_reply = \<lparr>content_type = Some xlsx_type, data = \<lparr>bytes = ''PK'', blob_type = xlsx_type\<rparr>\<rparr>"

definition empty_xlsx_reply :: blob_response where
  "empty_xlsx_reply = \<lparr>content_type = Some xlsx_type, data = \<lparr>bytes = [], blob_type = xlsx_type\<rparr>\<rparr>"

definition pdf_reply :: blob_response where
  "pdf_reply =
     \<lparr>content_type = Some ''application/pdf'',
      data = \<lparr>bytes = ''%PDF-1.7'', blob_type = ''application/pdf''\<rparr>\<rparr>"

definition html_reply :: blob_response where
  "html_reply =
     \<lparr>content_type = Some ''text/html'',
      data = \<lparr>bytes = ''<html>Bad Gateway</html>'', blob_type = ''text/html''\<rparr>\<rparr>"

text \<open>
  Two PDF blobs; the page with the text \<open>{}\<close> on its JSON tab; that page when the user
  has gone to the PDF tab, where the preview effect asks for the PDF; and the page once
  the first blob has arrived and is cached.
\<close>

definition sample_pdf :: blob where
  "sample_pdf = \<lparr>bytes = ''%PDF-1.7 a'', blob_type = ''application/pdf''\<rparr>"

definition other_pdf :: blob where
  "other_pdf = \<lparr>bytes = ''%PDF-1.7 b'', blob_type = ''application/pdf''\<rparr>"







text \<open>A draft whose project name has a capital letter and a space.\<close>

definition named_draft :: json where
  "named_draft = JObj [(''overview'', JObj [(''Project Name'', JStr ''Scope Demo'')])]"



text \<open>An empty project context.\<close>

definition empty_ctx :: project_ctx where
  "empty_ctx = \<lparr>projects = [], lastPreviewScope = None, lastRedirectUrl = None\<rparr>"

section \<open>Properties\<close>

subsection \<open>Rules for evaluating the definitions\<close>

lemma floor_rat_numeral [simp]: "\<lfloor>(numeral a :: rat) / numeral b\<rfloor> = numeral a div numeral b"
  using floor_divide_of_int_eq [of "numeral a" "numeral b", where ?'a = rat] by simp

lemma trim_Nil: "trim [] = []"
  by (simp add: trim_def)

lemmas table_eval =
  array_preview_def typeof_object_def object_keys_def totals_def sum_months_def month_cols_def
  month_effort_def row_rate_def or_default_def or_zero_def get_prop_def total_row_def
  display_row_def is_money_col_def toLowerCase_def lower_char_def upper_letters_def
  lower_letters_def formatCurrency_def
  toFixed2_def toLocaleString_usd_def round_cents_def group3_def digits_of.simps digit_char_def

lemmas stringify_eval =
  stringify2_def stringify_def quote_def quote_char_def num_to_string_def digits_of.simps digit_char_def

lemmas download_eval =
  handleDownloadAll_def handleDownloadExcel_def handleDownloadPdf_def handleDownloadJson_def
  downloadFile_start_def downloadFile_settle_def download_failed_def download_all_failed_def
  startDownload_def finishDownload_def resetDownload_def cancel_click_def toast_def
  exportToJson_def exportToExcel_def exportToPdf_def send_def fetchExportBlob_def
  exportToJson_request_def exportToExcel_request_def exportToPdf_request_def export_request_def
  download_opts_def project_name_def or_default_def safeFileName_def toLowerCase_def
  lower_char_def upper_letters_def lower_letters_def is_space_def blob_size_def initial_page_def
  zip_file_def parentFolder_def Let_def


subsection \<open>The guard after finalizing\<close>

lemma parsedDraft_truthy_text: "truthy_cell (parsedDraft parse txt) \<Longrightarrow> txt \<noteq> []"
  by (auto simp: parsedDraft_def truthy_cell_def trim_Nil)

lemma edit_detection_suppressed:
  "justFinalized r \<Longrightarrow>
   isFinalized (edit_detection_effect r st) = isFinalized st
   \<and> \<not> justFinalized (edit_detection_effect r st)
   \<and> prevJsonRef (edit_detection_effect r st) = jsonText r"
  by (simp add: edit_detection_effect_def)

lemma edit_detection_reverts:
  "isFinalized r \<Longrightarrow> \<not> justFinalized r \<Longrightarrow> prevJsonRef st \<noteq> [] \<Longrightarrow> prevJsonRef st \<noteq> jsonText r \<Longrightarrow>
   \<not> isFinalized (edit_detection_effect r st)"
  by (simp add: edit_detection_effect_def)

text \<open>
  Claim C2. Finalizing goes ahead while the text parses to a draft. When \<open>finalizeScope\<close>
  has succeeded, the page \<open>f\<close> that is rendered next has both \<open>isFinalized\<close> and
  \<open>justFinalized\<close> set. A run of the edit-detection effect on a render with
  \<open>justFinalized\<close> set never clears \<open>isFinalized\<close>, whatever the text, and clears
  \<open>justFinalized\<close>. So the run \<open>p\<close> that follows finalizing keeps the page finalized; the
  guard is then spent: a further run without an edit changes nothing, and the run after
  an edit of the text to any other text \<open>t\<close> sets \<open>isFinalized\<close> back to false.
\<close>

theorem finalize_guard_one_pass:
  assumes enabled: "handleFinalize_begin parse s = Some b"
  shows
    "(let f = handleFinalize_finalized (Inr x) b;
          p = edit_detection_effect f f
      in isFinalized f \<and> justFinalized f
         \<and> (\<forall>r st. justFinalized r \<longrightarrow>
               isFinalized (edit_detection_effect r st) = isFinalized st
               \<and> \<not> justFinalized (edit_detection_effect r st))
         \<and> isFinalized p \<and> \<not> justFinalized p
         \<and> edit_detection_effect p p = p
         \<and> (\<forall>t. t \<noteq> jsonText p \<longrightarrow>
               \<not> isFinalized (edit_detection_effect (p\<lparr>jsonText := t\<rparr>) (p\<lparr>jsonText := t\<rparr>))))"
proof -
  let ?f = "handleFinalize_finalized (Inr x) b"
  let ?p = "edit_detection_effect ?f ?f"
  have b: "b = s\<lparr>finalizing := True\<rparr>" and draft: "truthy_cell (parsedDraft parse (jsonText s))"
    using enabled by (simp_all add: handleFinalize_begin_def split: if_splits)
  have nonempty: "jsonText s \<noteq> []"
    using draft by (rule parsedDraft_truthy_text)
  have f: "isFinalized ?f" "justFinalized ?f" "jsonText ?f = jsonText s"
    by (simp_all add: handleFinalize_finalized_def b toast_def)
  have p: "isFinalized ?p" "\<not> justFinalized ?p" "prevJsonRef ?p = jsonText s" "jsonText ?p = jsonText s"
    using f by (simp_all add: edit_detection_effect_def)
  have idem: "edit_detection_effect ?p ?p = ?p"
    using p by (simp add: edit_detection_effect_def [of ?p ?p])
  have revert: "\<not> isFinalized (edit_detection_effect (?p\<lparr>jsonText := t\<rparr>) (?p\<lparr>jsonText := t\<rparr>))"
    if "t \<noteq> jsonText ?p" for t
    using that p nonempty by (intro edit_detection_reverts) simp_all
  show ?thesis
    unfolding Let_def using f(1,2) p(1,2) idem revert edit_detection_suppressed by blast
qed

theorem finalize_guard_one_pass_witness:
  "handleFinalize_begin sample_parse (initial_page\<lparr>jsonText := ''{}''\<rparr>)
     = Some (initial_page\<lparr>jsonText := ''{}'', finalizing := True\<rparr>)
   \<and> isFinalized (edit_detection_effect
        (handleFinalize_finalized (Inr ()) (initial_page\<lparr>jsonText := ''{}'', finalizing := True\<rparr>))
        (handleFinalize_finalized (Inr ()) (initial_page\<lparr>jsonText := ''{}'', finalizing := True\<rparr>)))
   \<and> \<not> isFinalized (edit_detection_effect
        ((edit_detection_effect
           (handleFinalize_finalized (Inr ()) (initial_page\<lparr>jsonText := ''{}'', finalizing := True\<rparr>))
           (handleFinalize_finalized (Inr ()) (initial_page\<lparr>jsonText := ''{}'', finalizing := True\<rparr>)))
          \<lparr>jsonText := ''{ }''\<rparr>)
        ((edit_detection_effect
           (handleFinalize_finalized (Inr ()) (initial_page\<lparr>jsonText := ''{}'', finalizing := True\<rparr>))
           (handleFinalize_finalized (Inr ()) (initial_page\<lparr>jsonText := ''{}'', finalizing := True\<rparr>)))
          \<lparr>jsonText := ''{ }''\<rparr>))"
proof -
  have h: "handleFinalize_begin sample_parse (initial_page\<lparr>jsonText := ''{}''\<rparr>)
     = Some (initial_page\<lparr>jsonText := ''{}'', finalizing := True\<rparr>)"
    by (simp add: handleFinalize_begin_def parsedDraft_def sample_parse_def trim_def is_space_def
        truthy_cell_def)
  have t: "''{ }'' \<noteq> jsonText (edit_detection_effect
        (handleFinalize_finalized (Inr ()) (initial_page\<lparr>jsonText := ''{}'', finalizing := True\<rparr>))
        (handleFinalize_finalized (Inr ()) (initial_page\<lparr>jsonText := ''{}'', finalizing := True\<rparr>)))"
    by (simp add: edit_detection_effect_def handleFinalize_finalized_def toast_def)
  show ?thesis
    using h t finalize_guard_one_pass [OF h, of "()"] unfolding Let_def by blast
qed

text \<open>
  The text that \<open>handleFinalize\<close> fetches after finalizing arrives when that guard is
  spent: on a finalized page whose last text is on record, the run of the edit-detection
  effect that follows keeps the page finalized exactly when the fetched scope prints as
  the text of the editor.
\<close>

lemma refetch_after_guard:
  assumes "isFinalized p" "\<not> justFinalized p" "prevJsonRef p = jsonText p" "jsonText p \<noteq> []"
    and "truthy finalizedData"
  shows "isFinalized (edit_detection_effect (handleFinalize_refetched (Inr finalizedData) p)
                        (handleFinalize_refetched (Inr finalizedData) p))
           = (stringify2 finalizedData = jsonText p)"
  using assms
  by (auto simp: handleFinalize_refetched_def ProjectContext_getFinalizedScope_def
      edit_detection_effect_def)

subsection \<open>The Total row of the resourcing plan\<close>



















subsection \<open>Writing the overview back\<close>

lemma update_lift_props:
  "AList.update k (Some v) (lift_props al) = lift_props (AList.update k v al)"
  by (induction al) (auto simp: lift_props_def)

lemma defined_lift_props: "defined_props (lift_props al) = al"
  by (induction al) (auto simp: defined_props_def lift_props_def List.map_filter_simps)

lemma overview_fold_lift:
  "foldl (\<lambda>newOverview row.
                 if truthy_cell (nth_cell row 0)
                 then AList.update (cell_to_string (nth_cell row 0)) (nth_cell row 1) newOverview
                 else newOverview)
          (lift_props al) (field_rows kvs)
   = lift_props (foldl set_field al kvs)"
proof (induction kvs arbitrary: al)
  case Nil
  show ?case by (simp add: field_rows_def)
next
  case (Cons kv kvs)
  obtain k v where kv: "kv = (k, v)" by (cases kv)
  have step: "(if truthy_cell (nth_cell [Some (JStr k), Some v] 0)
               then AList.update (cell_to_string (nth_cell [Some (JStr k), Some v] 0))
                      (nth_cell [Some (JStr k), Some v] 1) (lift_props al)
               else lift_props al) = lift_props (set_field al (k, v))"
    by (simp add: nth_cell_def truthy_cell_def cell_to_string_def set_field_def update_lift_props)
  show ?case
    using Cons.IH [of "set_field al (k, v)"] step by (simp add: kv field_rows_def)
qed

lemma overview_of_field_rows: "overview_of_rows (field_rows kvs) = foldl set_field [] kvs"
proof -
  have "lift_props [] = []" by (simp add: lift_props_def)
  with overview_fold_lift [of "[]" kvs] show ?thesis
    by (simp add: overview_of_rows_def defined_lift_props)
qed






lemma blank_row_dropped:
  "overview_of_rows (rs @ [[Some (JStr []), Some (JStr [])]]) = overview_of_rows rs"
  by (simp add: overview_of_rows_def nth_cell_def truthy_cell_def)

lemma overview_of_field_rows_blank:
  "overview_of_rows (field_rows kvs @ [map (\<lambda>h. Some (JStr [])) [''Field'', ''Value'']])
     = foldl set_field [] kvs"
  using blank_row_dropped [of "field_rows kvs"] by (simp add: overview_of_field_rows)

lemma field_rows_edit_field:
  "i < length kvs \<Longrightarrow>
   (field_rows kvs)[i := (field_rows kvs ! i)[0 := Some (JStr v)]]
     = field_rows (kvs[i := (v, snd (kvs ! i))])"
  by (cases "kvs ! i") (simp add: field_rows_def map_update)

lemma field_rows_edit_value:
  "i < length kvs \<Longrightarrow>
   (field_rows kvs)[i := (field_rows kvs ! i)[1 := Some (JStr v)]]
     = field_rows (kvs[i := (fst (kvs ! i), JStr v)])"
  by (cases "kvs ! i") (simp add: field_rows_def map_update)

lemma enumerate_map: "enumerate n (map f xs) = map (\<lambda>(i, x). (i, f x)) (enumerate n xs)"
  by (induction xs arbitrary: n) simp_all

lemma field_rows_delete:
  "map snd (filter (\<lambda>(idx, row). idx \<noteq> i) (enumerate 0 (field_rows kvs)))
     = field_rows (map snd (filter (\<lambda>(idx, kv). idx \<noteq> i) (enumerate 0 kvs)))"
  by (simp add: field_rows_def enumerate_map filter_map comp_def case_prod_unfold)

lemma field_rows_add:
  "field_rows kvs @ [map (\<lambda>h. Some (JStr [])) [''Field'', ''Value'']] = field_rows (kvs @ [([], JStr [])])"
  by (simp add: field_rows_def)



subsection \<open>Editing a cell of the resourcing plan\<close>

lemma sample_preview_shown:
  "excel_preview_effect (Some sample_draft) ''excel'' ''resourcing_plan'' \<lparr>headers = [], rows = []\<rparr>
     = Inr (''resourcing_plan'', sample_preview)"
  by (simp add: excel_preview_effect_def sample_draft_def sample_preview_def sample_row_def table_eval)

text \<open>
  Claim C1, at a draft where the code does otherwise. The draft has the one-row plan of
  the example, and the table shows \<open>sample_preview\<close> for it: the rate as \<open>"$1,000.00"\<close>
  and the Total row. Typing \<open>QA\<close> into the Role cell of the first row writes back every
  cell of the table as it is shown: the rate of the edited row becomes the string
  \<open>"$1,000.00"\<close>, and the Total row becomes a second row of the plan. The text written is
  not the text of the draft with the Role changed and nothing else.
\<close>

theorem cell_edit_writes_display_values:
  "excel_preview_effect (Some sample_draft) ''excel'' ''resourcing_plan'' \<lparr>headers = [], rows = []\<rparr>
     = Inr (''resourcing_plan'', sample_preview)
   \<and> on_cell_change (Some sample_draft) sample_preview ''resourcing_plan'' 0 0 ''QA''
        (stringify2 sample_draft)
     = ([[Some (JStr ''QA''), Some (JStr ''$1,000.00''), Some (JNum (Fin 2)), Some (JNum (Fin 1))],
         [Some (JStr ''Total''), Some (JStr []), Some (JNum (Fin 3)), Some (JStr ''$3,000.00'')]],
        stringify2
          (JObj [(''overview'', JObj [(''Project Name'', JStr ''Demo'')]),
                 (''resourcing_plan'',
                  JArr [JObj [(''Role'', JStr ''QA''), (''Rate/month'', JStr ''$1,000.00''),
                              (''Month 1'', JNum (Fin 2)), (''Month 2'', JNum (Fin 1))],
                        JObj [(''Role'', JStr ''Total''), (''Rate/month'', JStr []),
                              (''Month 1'', JNum (Fin 3)), (''Month 2'', JStr ''$3,000.00'')]])]))
   \<and> snd (on_cell_change (Some sample_draft) sample_preview ''resourcing_plan'' 0 0 ''QA''
            (stringify2 sample_draft))
     \<noteq> stringify2
          (JObj [(''overview'', JObj [(''Project Name'', JStr ''Demo'')]),
                 (''resourcing_plan'',
                  JArr [JObj [(''Role'', JStr ''QA''), (''Rate/month'', JNum (Fin 1000)),
                              (''Month 1'', JNum (Fin 2)), (''Month 2'', JNum (Fin 1))]])])"
proof -
  have edit: "on_cell_change (Some sample_draft) sample_preview ''resourcing_plan'' 0 0 ''QA''
        (stringify2 sample_draft)
     = ([[Some (JStr ''QA''), Some (JStr ''$1,000.00''), Some (JNum (Fin 2)), Some (JNum (Fin 1))],
         [Some (JStr ''Total''), Some (JStr []), Some (JNum (Fin 3)), Some (JStr ''$3,000.00'')]],
        stringify2
          (JObj [(''overview'', JObj [(''Project Name'', JStr ''Demo'')]),
                 (''resourcing_plan'',
                  JArr [JObj [(''Role'', JStr ''QA''), (''Rate/month'', JStr ''$1,000.00''),
                              (''Month 1'', JNum (Fin 2)), (''Month 2'', JNum (Fin 1))],
                        JObj [(''Role'', JStr ''Total''), (''Rate/month'', JStr []),
                              (''Month 1'', JNum (Fin 3)), (''Month 2'', JStr ''$3,000.00'')]])]))"
    by (simp add: on_cell_change_def editable_def is_total_def nth_cell_def sample_preview_def
        sample_draft_def updateParsedDraft_def new_draft_def row_object_def defined_props_def
        List.map_filter_simps)
  have differs: "stringify2
          (JObj [(''overview'', JObj [(''Project Name'', JStr ''Demo'')]),
                 (''resourcing_plan'',
                  JArr [JObj [(''Role'', JStr ''QA''), (''Rate/month'', JStr ''$1,000.00''),
                              (''Month 1'', JNum (Fin 2)), (''Month 2'', JNum (Fin 1))],
                        JObj [(''Role'', JStr ''Total''), (''Rate/month'', JStr []),
                              (''Month 1'', JNum (Fin 3)), (''Month 2'', JStr ''$3,000.00'')]])])
     \<noteq> stringify2
          (JObj [(''overview'', JObj [(''Project Name'', JStr ''Demo'')]),
                 (''resourcing_plan'',
                  JArr [JObj [(''Role'', JStr ''QA''), (''Rate/month'', JNum (Fin 1000)),
                              (''Month 1'', JNum (Fin 2)), (''Month 2'', JNum (Fin 1))]])])"
    by (simp add: stringify_eval)
  show ?thesis
    using sample_preview_shown edit differs by (simp only: snd_conv) blast
qed

subsection \<open>A finalized-scope request answered with status 400\<close>

text \<open>
  Claim C3, at a reply where the code does otherwise. The export context's
  \<open>getFinalizedScope\<close> turns the status 400 into \<open>null\<close>. The export page takes
  \<open>getFinalizedScope\<close> from the project context, and that one throws the error again. The
  load effect catches it and stops: on a page that shows a finalized scope (the effect
  runs again when the route's project id changes) \<open>isFinalized\<close> stays true and the text
  stays; on a fresh page the incoming draft is not put into the editor, as it is for a
  reply without data.
\<close>

theorem finalized_fetch_400_is_thrown:
  "ProjectContext_getFinalizedScope (Inl status_400) = Inl status_400
   \<and> snd (ExportContext_getFinalizedScope ctx A ''7'' (Inl status_400)) = Inr None
   \<and> load_project_effect finalized_page (Inr (JObj [(''id'', JStr ''7'')])) (Inl status_400)
         (Some sample_draft) finalized_page
       = finalized_page\<lparr>project := Some (JObj [(''id'', JStr ''7'')])\<rparr>
   \<and> isFinalized (load_project_effect finalized_page (Inr (JObj [(''id'', JStr ''7'')]))
         (Inl status_400) (Some sample_draft) finalized_page)
   \<and> jsonText (load_project_effect initial_page (Inr (JObj [(''id'', JStr ''7'')]))
         (Inl status_400) (Some sample_draft) initial_page) = []
   \<and> jsonText (load_project_effect initial_page (Inr (JObj [(''id'', JStr ''7'')]))
         (Inr JNull) (Some sample_draft) initial_page) = stringify2 sample_draft"
  by (simp add: ProjectContext_getFinalizedScope_def ExportContext_getFinalizedScope_def
      handleExport_def exportToJson_def send_def exportToJson_request_def export_request_def
      status_400_def load_project_effect_def finalized_page_def initial_page_def sample_draft_def)

subsection \<open>Downloads\<close>





















text \<open>
  Claim C7, at replies where the code does otherwise. In Download All a spreadsheet of
  zero bytes becomes an empty entry of the archive, which is saved with a success toast.
  The single PDF download of an HTML reply saves the HTML as \<open>.pdf\<close>, with a success
  toast: \<open>fetchExportBlob\<close> refuses only a reply declared as JSON. The test for an empty
  blob stands in \<open>downloadFile\<close> alone, where the same empty spreadsheet is reported as
  a failure and nothing is saved.
\<close>

theorem empty_or_mistyped_export_is_saved:
  "saved (handleDownloadAll parse None ''7'' False (Inr (JObj [])) (Inr empty_xlsx_reply)
            (Inr pdf_reply) initial_page)
     = [(''project_7.zip'',
         SavedZip [(''project_7.json'', ''{}''), (''project_7.xlsx'', []),
                   (''project_7.pdf'', ''%PDF-1.7'')])]
   \<and> toasts (handleDownloadAll parse None ''7'' False (Inr (JObj [])) (Inr empty_xlsx_reply)
            (Inr pdf_reply) initial_page)
     = [(ToastSuccess, ''All files downloaded'')]
   \<and> saved (handleDownloadPdf parse None ''7'' False (Inr html_reply) initial_page)
     = [(''project_7.pdf'', SavedBlob \<lparr>bytes = ''<html>Bad Gateway</html>'', blob_type = ''text/html''\<rparr>)]
   \<and> toasts (handleDownloadPdf parse None ''7'' False (Inr html_reply) initial_page)
     = [(ToastSuccess, ''project_7.pdf downloaded'')]
   \<and> saved (handleDownloadExcel parse None ''7'' False (Inr empty_xlsx_reply) initial_page) = []
   \<and> toasts (handleDownloadExcel parse None ''7'' False (Inr empty_xlsx_reply) initial_page)
     = [(ToastError, ''Failed to download project_7'')]"
  by (simp add: download_eval empty_xlsx_reply_def pdf_reply_def html_reply_def xlsx_type_def
      stringify_eval)

text \<open>
  Claim C8, at a cancellation where the code does otherwise. The export functions take
  the project id only, so the request carries no signal. The user clicks Cancel while the
  spreadsheet is in flight: the controller is aborted, the request goes on, and when the
  reply arrives the file is saved, the download is marked finished with progress 100 and the
  toast reports a success. The outcome of an export function never depends on the
  aborted controllers.
\<close>

theorem cancel_does_not_abort_request:
  "signal (exportToJson_request pid opts) = None
   \<and> signal (exportToExcel_request pid opts) = None
   \<and> signal (exportToPdf_request pid opts) = None
   \<and> exportToExcel parse A pid opts outcome = exportToExcel parse {} pid opts outcome
   \<and> aborted (handleDownloadExcel parse None ''7'' True (Inr xlsx_reply) initial_page) = {0}
   \<and> saved (handleDownloadExcel parse None ''7'' True (Inr xlsx_reply) initial_page)
     = [(''project_7.xlsx'', SavedBlob \<lparr>bytes = ''PK'', blob_type = xlsx_type\<rparr>)]
   \<and> toasts (handleDownloadExcel parse None ''7'' True (Inr xlsx_reply) initial_page)
     = [(ToastSuccess, ''project_7.xlsx downloaded'')]
   \<and> downloadState (handleDownloadExcel parse None ''7'' True (Inr xlsx_reply) initial_page) KExcel
     = \<lparr>dl_loading = False, progress = 100, controller = None\<rparr>"
  by (simp add: download_eval xlsx_reply_def xlsx_type_def)

subsection \<open>The cache of the PDF preview\<close>














subsection \<open>The three previews of one operation\<close>

lemma promise_all3_Inr:
  "promise_all3 order (Inr a) (Inr b) (Inr c) = Inr (a, b, c)"
  by (simp add: promise_all3_def)

lemma promise_all3_fails:
  "isl r0 \<or> isl r1 \<or> isl r2 \<Longrightarrow> isl (promise_all3 order r0 r1 r2)"
  by (cases r0; cases r1; cases r2)
     (simp_all add: promise_all3_def List.map_filter_def split: list.split)

lemma promise_all3_cases:
  obtains (ok) a b c where "r0 = Inr a" "r1 = Inr b" "r2 = Inr c"
      "\<And>order. promise_all3 order r0 r1 r2 = Inr (a, b, c)"
  | (failed) "isl r0 \<or> isl r1 \<or> isl r2" "\<And>order. \<exists>e. promise_all3 order r0 r1 r2 = Inl e"
proof (cases "isl r0 \<or> isl r1 \<or> isl r2")
  case True
  then have "\<exists>e. promise_all3 order r0 r1 r2 = Inl e" for order
    using promise_all3_fails [of r0 r1 r2 order] by (auto simp: isl_def)
  with True show ?thesis by (rule failed)
next
  case False
  then obtain a b c where "r0 = Inr a" "r1 = Inr b" "r2 = Inr c"
    by (cases r0; cases r1; cases r2) simp_all
  then show ?thesis using promise_all3_Inr by (intro ok) auto
qed

lemma createProject_join:
  "((\<exists>res. snd (createProject ctx created generated order pj pe pp reloaded) = Inr res)
      \<longrightarrow> \<not> isl pj \<and> \<not> isl pe \<and> \<not> isl pp)
   \<and> (isl pj \<or> isl pe \<or> isl pp \<longrightarrow>
        isl (snd (createProject ctx created generated order pj pe pp reloaded))
        \<and> fst (createProject ctx created generated order pj pe pp reloaded) = ctx)
   \<and> fst (createProject ctx created generated order pj pe pp reloaded)
       = fst (createProject ctx created generated order' pj pe pp reloaded)
   \<and> (\<forall>res. snd (createProject ctx created generated order pj pe pp reloaded) = Inr res \<longrightarrow>
        snd (createProject ctx created generated order' pj pe pp reloaded) = Inr res)"
proof (cases rule: promise_all3_cases [of pj pe pp])
  case (ok a b c)
  then show ?thesis
    by (simp add: createProject_def split: sum.split)
next
  case failed
  from failed(2) [of order] failed(2) [of order'] obtain e e'
    where "promise_all3 order pj pe pp = Inl e" "promise_all3 order' pj pe pp = Inl e'" by blast
  with failed(1) show ?thesis
    by (auto simp: createProject_def split: sum.split)
qed

lemma regenerateScope_join:
  "((\<exists>res. snd (regenerateScope ctx draftScope exported order pj pe pp) = Inr res)
      \<longrightarrow> \<not> isl pj \<and> \<not> isl pe \<and> \<not> isl pp)
   \<and> (isl pj \<or> isl pe \<or> isl pp \<longrightarrow>
        isl (snd (regenerateScope ctx draftScope exported order pj pe pp))
        \<and> fst (regenerateScope ctx draftScope exported order pj pe pp) = ctx)
   \<and> fst (regenerateScope ctx draftScope exported order pj pe pp)
       = fst (regenerateScope ctx draftScope exported order' pj pe pp)
   \<and> (\<forall>res. snd (regenerateScope ctx draftScope exported order pj pe pp) = Inr res \<longrightarrow>
        snd (regenerateScope ctx draftScope exported order' pj pe pp) = Inr res)"
proof (cases rule: promise_all3_cases [of pj pe pp])
  case (ok a b c)
  then show ?thesis
    by (simp add: regenerateScope_def split: sum.split)
next
  case failed
  from failed(2) [of order] failed(2) [of order'] obtain e e'
    where "promise_all3 order pj pe pp = Inl e" "promise_all3 order' pj pe pp = Inl e'" by blast
  with failed(1) show ?thesis
    by (auto simp: regenerateScope_def split: sum.split)
qed

lemma finalizeScope_join:
  "((\<exists>res. snd (finalizeScope ctx pid scopeData finalized reloaded order pj pe pp) = Inr res)
      \<longrightarrow> \<not> isl pj \<and> \<not> isl pe \<and> \<not> isl pp)
   \<and> (isl pj \<or> isl pe \<or> isl pp \<longrightarrow>
        isl (snd (finalizeScope ctx pid scopeData finalized reloaded order pj pe pp))
        \<and> lastPreviewScope (fst (finalizeScope ctx pid scopeData finalized reloaded order pj pe pp))
            = lastPreviewScope ctx
        \<and> lastRedirectUrl (fst (finalizeScope ctx pid scopeData finalized reloaded order pj pe pp))
            = lastRedirectUrl ctx
        \<and> fst (finalizeScope ctx pid scopeData finalized reloaded order pj pe pp)
            = (case (finalized, reloaded) of
                 (Inr res_data, Inr fullProject) \<Rightarrow>
                   ctx\<lparr>projects := replaceById (projects ctx) (Some (JStr pid)) fullProject\<rparr>
               | _ \<Rightarrow> ctx))
   \<and> fst (finalizeScope ctx pid scopeData finalized reloaded order pj pe pp)
       = fst (finalizeScope ctx pid scopeData finalized reloaded order' pj pe pp)
   \<and> (\<forall>res. snd (finalizeScope ctx pid scopeData finalized reloaded order pj pe pp) = Inr res \<longrightarrow>
        snd (finalizeScope ctx pid scopeData finalized reloaded order' pj pe pp) = Inr res)"
proof (cases rule: promise_all3_cases [of pj pe pp])
  case (ok a b c)
  then show ?thesis
    by (simp add: finalizeScope_def split: sum.split)
next
  case failed
  from failed(2) [of order] failed(2) [of order'] obtain e e'
    where "promise_all3 order pj pe pp = Inl e" "promise_all3 order' pj pe pp = Inl e'" by blast
  with failed(1) show ?thesis
    by (auto simp: finalizeScope_def split: sum.split)
qed

text \<open>
  Claim C9. In \<open>createProject\<close>, \<open>regenerateScope\<close> and \<open>finalizeScope\<close> the three
  previews settle in any order. Each operation succeeds only if all three previews have
  succeeded. If one of them fails, the operation fails and no update that stands after
  the previews is applied: \<open>createProject\<close> and \<open>regenerateScope\<close> leave the context as
  it was; \<open>finalizeScope\<close> leaves the last preview scope and the redirect URL as they
  were, and the context is the one it had reached when it issued the previews (it
  replaces the reloaded project in the list before them). The order in which the previews
  settle changes neither the context nor a successful result.
\<close>

theorem previews_join_before_updates:
  "(((\<exists>res. snd (createProject ctx created generated order pj pe pp reloaded) = Inr res)
      \<longrightarrow> \<not> isl pj \<and> \<not> isl pe \<and> \<not> isl pp)
   \<and> (isl pj \<or> isl pe \<or> isl pp \<longrightarrow>
        isl (snd (createProject ctx created generated order pj pe pp reloaded))
        \<and> fst (createProject ctx created generated order pj pe pp reloaded) = ctx)
   \<and> fst (createProject ctx created generated order pj pe pp reloaded)
       = fst (createProject ctx created generated order' pj pe pp reloaded)
   \<and> (\<forall>res. snd (createProject ctx created generated order pj pe pp reloaded) = Inr res \<longrightarrow>
        snd (createProject ctx created generated order' pj pe pp reloaded) = Inr res))
   \<and> (((\<exists>res. snd (regenerateScope ctx draftScope exported order pj pe pp) = Inr res)
      \<longrightarrow> \<not> isl pj \<and> \<not> isl pe \<and> \<not> isl pp)
   \<and> (isl pj \<or> isl pe \<or> isl pp \<longrightarrow>
        isl (snd (regenerateScope ctx draftScope exported order pj pe pp))
        \<and> fst (regenerateScope ctx draftScope exported order pj pe pp) = ctx)
   \<and> fst (regenerateScope ctx draftScope exported order pj pe pp)
       = fst (regenerateScope ctx draftScope exported order' pj pe pp)
   \<and> (\<forall>res. snd (regenerateScope ctx draftScope exported order pj pe pp) = Inr res \<longrightarrow>
        snd (regenerateScope ctx draftScope exported order' pj pe pp) = Inr res))
   \<and> (((\<exists>res. snd (finalizeScope ctx pid scopeData finalized reloaded order pj pe pp) = Inr res)
      \<longrightarrow> \<not> isl pj \<and> \<not> isl pe \<and> \<not> isl pp)
   \<and> (isl pj \<or> isl pe \<or> isl pp \<longrightarrow>
        isl (snd (finalizeScope ctx pid scopeData finalized reloaded order pj pe pp))
        \<and> lastPreviewScope (fst (finalizeScope ctx pid scopeData finalized reloaded order pj pe pp))
            = lastPreviewScope ctx
        \<and> lastRedirectUrl (fst (finalizeScope ctx pid scopeData finalized reloaded order pj pe pp))
            = lastRedirectUrl ctx
        \<and> fst (finalizeScope ctx pid scopeData finalized reloaded order pj pe pp)
            = (case (finalized, reloaded) of
                 (Inr res_data, Inr fullProject) \<Rightarrow>
                   ctx\<lparr>projects := replaceById (projects ctx) (Some (JStr pid)) fullProject\<rparr>
               | _ \<Rightarrow> ctx))
   \<and> fst (finalizeScope ctx pid scopeData finalized reloaded order pj pe pp)
       = fst (finalizeScope ctx pid scopeData finalized reloaded order' pj pe pp)
   \<and> (\<forall>res. snd (finalizeScope ctx pid scopeData finalized reloaded order pj pe pp) = Inr res \<longrightarrow>
        snd (finalizeScope ctx pid scopeData finalized reloaded order' pj pe pp) = Inr res))"
  by (rule conjI [OF createProject_join conjI [OF regenerateScope_join finalizeScope_join]])

theorem previews_join_before_updates_witness:
  "isl (Inl status_400 :: js_error + blob)
   \<and> fst (createProject empty_ctx (Inr (JObj [(''id'', JStr ''7'')])) (Inr named_draft) [2, 0, 1]
            (Inr named_draft) (Inl status_400) (Inr sample_pdf) (Inr (JObj [(''id'', JStr ''7'')])))
       = empty_ctx
   \<and> isl (snd (finalizeScope empty_ctx ''7'' named_draft (Inr JNull) (Inr (JObj [(''id'', JStr ''7'')]))
            [2, 0, 1] (Inr named_draft) (Inl status_400) (Inr sample_pdf)))
   \<and> snd (regenerateScope empty_ctx None (Inl status_400) [2, 0, 1] (Inr named_draft)
            (Inr sample_pdf) (Inr sample_pdf)) = Inr named_draft
   \<and> \<not> isl (Inr sample_pdf :: js_error + blob)
   \<and> lastPreviewScope (fst (regenerateScope empty_ctx None (Inl status_400) [2, 0, 1]
            (Inr named_draft) (Inr sample_pdf) (Inr sample_pdf))) = Some named_draft"
proof -
  have ok: "snd (regenerateScope empty_ctx None (Inl status_400) [2, 0, 1] (Inr named_draft)
            (Inr sample_pdf) (Inr sample_pdf)) = Inr named_draft"
    "lastPreviewScope (fst (regenerateScope empty_ctx None (Inl status_400) [2, 0, 1]
            (Inr named_draft) (Inr sample_pdf) (Inr sample_pdf))) = Some named_draft"
    by (simp_all add: regenerateScope_def scope_to_use_def status_400_def promise_all3_def
        or_default_def named_draft_def)
  show ?thesis
    using ok
      previews_join_before_updates [where ctx = empty_ctx
        and created = "Inr (JObj [(''id'', JStr ''7'')])" and generated = "Inr named_draft"
        and order = "[2, 0, 1]" and pj = "Inr named_draft" and pe = "Inl status_400"
        and pp = "Inr sample_pdf" and reloaded = "Inr (JObj [(''id'', JStr ''7'')])"
        and pid = "''7''" and scopeData = named_draft and finalized = "Inr JNull"
        and order' = "[0, 1, 2]" and draftScope = None and exported = "Inl status_400"]
    by simp
qed

end
